theory Spec2Isabelle
  imports Main "HOL-Library.Multiset"
begin

text \<open>
  A model of the headers \<^verbatim>\<open>concurrent.hpp\<close>, \<^verbatim>\<open>concurrent_stl.hpp\<close> and
  \<^verbatim>\<open>concurrent_resource.hpp\<close> of the concurrent-resource library: the capability
  concepts as predicates on the interface of a lock type, the accessors and the two
  wrappers as functions on an explicit lock state, and the threads that share wrappers as
  a step function on the wrappers and the accessor objects alive. The properties follow
  the definitions.
\<close>

section \<open>Capability traits (concurrent.hpp, lines 29-158)\<close>

text \<open>
  The concepts of \<^verbatim>\<open>concurrent.hpp\<close> inspect a candidate type \<^verbatim>\<open>T\<close> only through
  the member calls \<^verbatim>\<open>a.lock()\<close>, \<^verbatim>\<open>a.unlock()\<close>, ... and the type each call returns.
  A candidate type is therefore modelled by its interface: a partial map from the member
  functions the concepts name to the return type of the call, \<open>None\<close> when the call is
  not a valid expression.
\<close>

datatype lock_op =
    Lock | Unlock | Try_lock | Try_lock_for | Try_lock_until
  | Lock_shared | Unlock_shared | Try_lock_shared | Try_lock_shared_for | Try_lock_shared_until

datatype return_type = Void | Bool | Other

type_synonym lock_type = "lock_op \<Rightarrow> return_type option"

text \<open>A compound requirement \<^verbatim>\<open>{ a.m() } -> std::same_as<R>\<close>.\<close>

definition requires_same_as :: "lock_type \<Rightarrow> lock_op \<Rightarrow> return_type \<Rightarrow> bool" where
  "requires_same_as T m r = (T m = Some r)"

definition basic_lockable :: "lock_type \<Rightarrow> bool" where
  "basic_lockable T =
     (requires_same_as T Lock Void \<and> requires_same_as T Unlock Void)"

definition lockable :: "lock_type \<Rightarrow> bool" where
  "lockable T = (basic_lockable T \<and> requires_same_as T Try_lock Bool)"

definition timed_lockable :: "lock_type \<Rightarrow> bool" where
  "timed_lockable T =
     (lockable T \<and> requires_same_as T Try_lock_for Bool
        \<and> requires_same_as T Try_lock_until Bool)"

definition basic_shared_lockable :: "lock_type \<Rightarrow> bool" where
  "basic_shared_lockable T =
     (basic_lockable T \<and> requires_same_as T Lock_shared Void
        \<and> requires_same_as T Unlock_shared Void)"

definition shared_lockable :: "lock_type \<Rightarrow> bool" where
  "shared_lockable T =
     (basic_shared_lockable T \<and> requires_same_as T Try_lock_shared Bool)"

definition shared_timed_lockable :: "lock_type \<Rightarrow> bool" where
  "shared_timed_lockable T =
     (shared_lockable T \<and> requires_same_as T Try_lock_shared_for Bool
        \<and> requires_same_as T Try_lock_shared_until Bool)"

subsection \<open>Concrete candidate types\<close>

text \<open>
  The interfaces of \<^verbatim>\<open>std::shared_mutex\<close> (the default lock of both wrappers), of
  \<^verbatim>\<open>std::shared_timed_mutex\<close>, of the exclusive-only \<^verbatim>\<open>std::mutex\<close>, and of a type
  with no member function at all (\<^verbatim>\<open>int\<close>).
\<close>

fun std_mutex :: lock_type where
  "std_mutex Lock = Some Void"
| "std_mutex Unlock = Some Void"
| "std_mutex Try_lock = Some Bool"
| "std_mutex _ = None"

fun std_shared_mutex :: lock_type where
  "std_shared_mutex Lock = Some Void"
| "std_shared_mutex Unlock = Some Void"
| "std_shared_mutex Try_lock = Some Bool"
| "std_shared_mutex Lock_shared = Some Void"
| "std_shared_mutex Unlock_shared = Some Void"
| "std_shared_mutex Try_lock_shared = Some Bool"
| "std_shared_mutex _ = None"

fun std_shared_timed_mutex :: lock_type where
  "std_shared_timed_mutex Lock = Some Void"
| "std_shared_timed_mutex Unlock = Some Void"
| "std_shared_timed_mutex Lock_shared = Some Void"
| "std_shared_timed_mutex Unlock_shared = Some Void"
| "std_shared_timed_mutex _ = Some Bool"

definition plain_int :: lock_type where
  "plain_int = (\<lambda>_. None)"

text \<open>A type with only \<^verbatim>\<open>lock\<close> and \<^verbatim>\<open>unlock\<close>, and one with the shared pair added.\<close>

definition only_basic :: lock_type where
  "only_basic = (\<lambda>_. None)(Lock := Some Void, Unlock := Some Void)"

definition only_basic_shared :: lock_type where
  "only_basic_shared =
     only_basic(Lock_shared := Some Void, Unlock_shared := Some Void)"

section \<open>The lock primitive and its guards\<close>

text \<open>
  A call into the lock primitive either returns, or does not return while the lock is
  busy (the calling thread waits), or has no defined behaviour (releasing a lock that is
  not held).
\<close>

datatype 'a outcome = Returns 'a | Blocks | Undefined_behaviour

text \<open>
  Modelled from the spec: \<^verbatim>\<open>std::shared_mutex\<close> (\<^verbatim>\<open>shared_mutex_t\<close>, line 37 of
  \<^verbatim>\<open>concurrent_resource.hpp\<close>), the backing primitive, which is not part of the
  repository. The states and transitions are those of the state machine of the spec's
  section 4.3: Unlocked, SharedLocked(n), ExclusiveLocked.
\<close>

datatype shared_mutex_t = Unlocked | SharedLocked nat | ExclusiveLocked

text \<open>The four member functions the guards call.\<close>

datatype mutex_call = Call_lock | Call_unlock | Call_lock_shared | Call_unlock_shared

fun call_op :: "mutex_call \<Rightarrow> lock_op" where
  "call_op Call_lock = Lock"
| "call_op Call_unlock = Unlock"
| "call_op Call_lock_shared = Lock_shared"
| "call_op Call_unlock_shared = Unlock_shared"

fun perform :: "mutex_call \<Rightarrow> shared_mutex_t \<Rightarrow> shared_mutex_t outcome" where
  "perform Call_lock Unlocked = Returns ExclusiveLocked"
| "perform Call_lock (SharedLocked n) = Blocks"
| "perform Call_lock ExclusiveLocked = Blocks"
| "perform Call_lock_shared Unlocked = Returns (SharedLocked 1)"
| "perform Call_lock_shared (SharedLocked n) = Returns (SharedLocked (n + 1))"
| "perform Call_lock_shared ExclusiveLocked = Blocks"
| "perform Call_unlock ExclusiveLocked = Returns Unlocked"
| "perform Call_unlock Unlocked = Undefined_behaviour"
| "perform Call_unlock (SharedLocked n) = Undefined_behaviour"
| "perform Call_unlock_shared (SharedLocked n) =
     (if n = 0 then Undefined_behaviour
      else if n = 1 then Returns Unlocked else Returns (SharedLocked (n - 1)))"
| "perform Call_unlock_shared Unlocked = Undefined_behaviour"
| "perform Call_unlock_shared ExclusiveLocked = Undefined_behaviour"

fun perform_all :: "mutex_call list \<Rightarrow> shared_mutex_t \<Rightarrow> shared_mutex_t outcome" where
  "perform_all [] m = Returns m"
| "perform_all (c # cs) m =
     (case perform c m of
        Returns m' \<Rightarrow> perform_all cs m'
      | Blocks \<Rightarrow> Blocks
      | Undefined_behaviour \<Rightarrow> Undefined_behaviour)"


text \<open>
  Modelled from the spec: the guard templates \<^verbatim>\<open>std::shared_lock\<close> and
  \<^verbatim>\<open>std::unique_lock\<close> (\<^verbatim>\<open>read_lock\<close> and \<^verbatim>\<open>write_lock\<close>, lines 38-39 of
  \<^verbatim>\<open>concurrent_resource.hpp\<close>; the defaults of \<^verbatim>\<open>concurrent_stl.hpp\<close>), which are
  not part of the repository. A guard holds a pointer to its mutex and an ownership flag.
  Constructing it from a mutex acquires the mutex in the guard's mode; moving it hands
  pointer and flag to the new guard and leaves the source without either; destroying it
  releases the mutex when the flag is set, and does nothing otherwise.
\<close>

datatype lock_kind = Shared_lock | Unique_lock

type_synonym obj_id = nat

record lock_guard =
  g_kind :: lock_kind
  pm :: "obj_id option"
  owns :: bool

fun acquire_call :: "lock_kind \<Rightarrow> mutex_call" where
  "acquire_call Shared_lock = Call_lock_shared"
| "acquire_call Unique_lock = Call_lock"

fun release_call :: "lock_kind \<Rightarrow> mutex_call" where
  "release_call Shared_lock = Call_unlock_shared"
| "release_call Unique_lock = Call_unlock"

definition guard_ctor_calls :: "lock_kind \<Rightarrow> mutex_call list" where
  "guard_ctor_calls k = [acquire_call k]"

definition guard_dtor_calls :: "lock_guard \<Rightarrow> mutex_call list" where
  "guard_dtor_calls g = (if owns g then [release_call (g_kind g)] else [])"

definition guard_ctor ::
  "lock_kind \<Rightarrow> obj_id \<Rightarrow> shared_mutex_t \<Rightarrow> (lock_guard \<times> shared_mutex_t) outcome" where
  "guard_ctor k p m =
     (case perform_all (guard_ctor_calls k) m of
        Returns m' \<Rightarrow> Returns (\<lparr>g_kind = k, pm = Some p, owns = True\<rparr>, m')
      | Blocks \<Rightarrow> Blocks
      | Undefined_behaviour \<Rightarrow> Undefined_behaviour)"

text \<open>The move constructor: the new guard, and the moved-from source.\<close>

definition guard_move :: "lock_guard \<Rightarrow> lock_guard \<times> lock_guard" where
  "guard_move g =
     (\<lparr>g_kind = g_kind g, pm = pm g, owns = owns g\<rparr>, g\<lparr>pm := None, owns := False\<rparr>)"

definition guard_dtor :: "lock_guard \<Rightarrow> shared_mutex_t \<Rightarrow> shared_mutex_t outcome" where
  "guard_dtor g m = perform_all (guard_dtor_calls g) m"

text \<open>The operations a guard template invokes on the lock type it is instantiated with.\<close>

definition guard_requires :: "lock_kind \<Rightarrow> lock_op list" where
  "guard_requires k = [call_op (acquire_call k), call_op (release_call k)]"

section \<open>References to the protected resource\<close>

text \<open>
  The resource is a member of its wrapper, so a reference to it is identified by the
  wrapper object it is a member of; its type is \<^verbatim>\<open>const T&\<close> or \<^verbatim>\<open>T&\<close>. Taking the
  address of a reference yields a pointer to the referent with the same qualification.
\<close>

datatype access = Const | Mutable

datatype reference = Ref access obj_id

datatype pointer = Ptr access obj_id

fun address_of :: "reference \<Rightarrow> pointer" where
  "address_of (Ref q w) = Ptr q w"

fun ref_target :: "reference \<Rightarrow> obj_id" where
  "ref_target (Ref q w) = w"

fun ptr_target :: "pointer \<Rightarrow> obj_id" where
  "ptr_target (Ptr q w) = w"

text \<open>
  The declared return type of a member function whose return type is deduced:
  \<^verbatim>\<open>decltype(auto)\<close> alone, or \<^verbatim>\<open>decltype(auto)\<close> with a \<^verbatim>\<open>const\<close> qualifier.
  The placeholder \<^verbatim>\<open>decltype(auto)\<close> must stand alone: a declaration that qualifies
  it is ill-formed, and the function it declares cannot be called.
\<close>

datatype return_spec = Decltype_auto | Const_decltype_auto

datatype declaration_error = Decltype_auto_not_alone

fun declare_return :: "return_spec \<Rightarrow> 'a \<Rightarrow> declaration_error + 'a" where
  "declare_return Decltype_auto r = Inr r"
| "declare_return Const_decltype_auto r = Inl Decltype_auto_not_alone"

section \<open>concurrent.hpp: noncopyable, accessor, concurrent\<close>







record accessor =
  lock :: lock_guard
  locked_resource :: reference

text \<open>The first constructor (line 208): lock the lockable, bind the resource.\<close>

definition accessor_ctor ::
  "lock_kind \<Rightarrow> obj_id \<Rightarrow> shared_mutex_t \<Rightarrow> reference \<Rightarrow> (accessor \<times> shared_mutex_t) outcome"
  where
  "accessor_ctor LockType p lockable_arg resource_arg =
     (case guard_ctor LockType p lockable_arg of
        Returns (g, m') \<Rightarrow> Returns (\<lparr>lock = g, locked_resource = resource_arg\<rparr>, m')
      | Blocks \<Rightarrow> Blocks
      | Undefined_behaviour \<Rightarrow> Undefined_behaviour)"


text \<open>The implicit move constructor: the new accessor and the moved-from one.\<close>

definition accessor_move :: "accessor \<Rightarrow> accessor \<times> accessor" where
  "accessor_move a =
     (\<lparr>lock = fst (guard_move (lock a)), locked_resource = locked_resource a\<rparr>,
      a\<lparr>lock := snd (guard_move (lock a))\<rparr>)"

text \<open>The implicit destructor destroys the member \<^verbatim>\<open>lock\<close>.\<close>

definition accessor_dtor_calls :: "accessor \<Rightarrow> mutex_call list" where
  "accessor_dtor_calls a = guard_dtor_calls (lock a)"

definition accessor_dtor :: "accessor \<Rightarrow> shared_mutex_t \<Rightarrow> shared_mutex_t outcome" where
  "accessor_dtor a m = guard_dtor (lock a) m"

text \<open>
  \<^verbatim>\<open>operator*\<close> (line 259) and \<^verbatim>\<open>operator->\<close> (lines 241-252). The decorator's own
  \<^verbatim>\<open>operator->\<close> (line 246) is declared
  \<^verbatim>\<open>constexpr decltype(auto) operator->() const noexcept\<close> and returns \<^verbatim>\<open>&value\<close>.
\<close>

definition accessor_deref :: "accessor \<Rightarrow> reference" where
  "accessor_deref a = locked_resource a"

record member_access_operator_decorator =
  value_ref :: reference

definition decorator_arrow ::
  "member_access_operator_decorator \<Rightarrow> declaration_error + pointer" where
  "decorator_arrow d = declare_return Decltype_auto (address_of (value_ref d))"

definition accessor_arrow :: "accessor \<Rightarrow> member_access_operator_decorator" where
  "accessor_arrow a = \<lparr>value_ref = locked_resource a\<rparr>"

text \<open>
  \<^verbatim>\<open>shared_accessor\<close> binds \<^verbatim>\<open>const T&\<close>, \<^verbatim>\<open>exclusive_accessor\<close> binds \<^verbatim>\<open>T&\<close>
  (lines 265-269).
\<close>

definition shared_accessor ::
  "lock_kind \<Rightarrow> obj_id \<Rightarrow> shared_mutex_t \<Rightarrow> obj_id \<Rightarrow> (accessor \<times> shared_mutex_t) outcome" where
  "shared_accessor LockType p lockable_arg r = accessor_ctor LockType p lockable_arg (Ref Const r)"

definition exclusive_accessor ::
  "lock_kind \<Rightarrow> obj_id \<Rightarrow> shared_mutex_t \<Rightarrow> obj_id \<Rightarrow> (accessor \<times> shared_mutex_t) outcome" where
  "exclusive_accessor LockType p lockable_arg r =
     accessor_ctor LockType p lockable_arg (Ref Mutable r)"

text \<open>
  Class \<^verbatim>\<open>concurrent\<close> (lines 285-363): the resource and its lockable. The guard
  templates \<^verbatim>\<open>SharedLockType\<close> and \<^verbatim>\<open>ExclusiveLockType\<close> are parameters;
  \<^verbatim>\<open>this\<close> is the identity of the wrapper object.
\<close>

record 'v concurrent =
  resource :: 'v
  lockable_obj :: shared_mutex_t

definition read_access_handle ::
  "lock_kind \<Rightarrow> obj_id \<Rightarrow> 'v concurrent \<Rightarrow> (accessor \<times> 'v concurrent) outcome" where
  "read_access_handle SharedLockType this c =
     (case shared_accessor SharedLockType this (lockable_obj c) this of
        Returns (a, m') \<Rightarrow> Returns (a, c\<lparr>lockable_obj := m'\<rparr>)
      | Blocks \<Rightarrow> Blocks
      | Undefined_behaviour \<Rightarrow> Undefined_behaviour)"

definition write_access_handle ::
  "lock_kind \<Rightarrow> obj_id \<Rightarrow> 'v concurrent \<Rightarrow> (accessor \<times> 'v concurrent) outcome" where
  "write_access_handle ExclusiveLockType this c =
     (case exclusive_accessor ExclusiveLockType this (lockable_obj c) this of
        Returns (a, m') \<Rightarrow> Returns (a, c\<lparr>lockable_obj := m'\<rparr>)
      | Blocks \<Rightarrow> Blocks
      | Undefined_behaviour \<Rightarrow> Undefined_behaviour)"

text \<open>The defaults of \<^verbatim>\<open>concurrent_stl.hpp\<close> (lines 21-24).\<close>

definition stl_SharedLockType :: lock_kind where
  "stl_SharedLockType = Shared_lock"

definition stl_ExclusiveLockType :: lock_kind where
  "stl_ExclusiveLockType = Unique_lock"


section \<open>concurrent_resource.hpp: the accessors and concurrent_resource\<close>

definition read_lock :: lock_kind where
  "read_lock = Shared_lock"

definition write_lock :: lock_kind where
  "write_lock = Unique_lock"

text \<open>
  \<^verbatim>\<open>detail::member_access_operator_decorator\<close> (lines 78-86). Its \<^verbatim>\<open>operator->\<close>
  (line 83) is declared \<^verbatim>\<open>constexpr const decltype(auto) operator->() const noexcept\<close>
  and returns \<^verbatim>\<open>&value\<close>.
\<close>

record detail_member_access_operator_decorator =
  detail_value :: reference

definition detail_decorator_arrow ::
  "detail_member_access_operator_decorator \<Rightarrow> declaration_error + pointer" where
  "detail_decorator_arrow d = declare_return Const_decltype_auto (address_of (detail_value d))"

text \<open>
  \<^verbatim>\<open>detail::accessor\<close> (lines 99-123). Its constructor takes the resource first and
  the mutex second, and initialises \<^verbatim>\<open>lock(mtx)\<close>.
\<close>

record detail_accessor =
  detail_lock :: lock_guard
  detail_resource :: reference

definition detail_accessor_ctor ::
  "lock_kind \<Rightarrow> reference \<Rightarrow> obj_id \<Rightarrow> shared_mutex_t
     \<Rightarrow> (detail_accessor \<times> shared_mutex_t) outcome" where
  "detail_accessor_ctor LockType resource_arg p mtx =
     (case guard_ctor LockType p mtx of
        Returns (g, m') \<Rightarrow> Returns (\<lparr>detail_lock = g, detail_resource = resource_arg\<rparr>, m')
      | Blocks \<Rightarrow> Blocks
      | Undefined_behaviour \<Rightarrow> Undefined_behaviour)"

definition detail_accessor_move :: "detail_accessor \<Rightarrow> detail_accessor \<times> detail_accessor" where
  "detail_accessor_move a =
     (\<lparr>detail_lock = fst (guard_move (detail_lock a)), detail_resource = detail_resource a\<rparr>,
      a\<lparr>detail_lock := snd (guard_move (detail_lock a))\<rparr>)"

definition detail_accessor_dtor_calls :: "detail_accessor \<Rightarrow> mutex_call list" where
  "detail_accessor_dtor_calls a = guard_dtor_calls (detail_lock a)"

definition detail_accessor_dtor ::
  "detail_accessor \<Rightarrow> shared_mutex_t \<Rightarrow> shared_mutex_t outcome" where
  "detail_accessor_dtor a m = guard_dtor (detail_lock a) m"

definition detail_accessor_arrow ::
  "detail_accessor \<Rightarrow> detail_member_access_operator_decorator" where
  "detail_accessor_arrow a = \<lparr>detail_value = detail_resource a\<rparr>"

definition detail_accessor_deref :: "detail_accessor \<Rightarrow> reference" where
  "detail_accessor_deref a = detail_resource a"

text \<open>
  \<^verbatim>\<open>detail::unsafe_accessor\<close> (lines 130-141) has the reference as its only member and
  \<^verbatim>\<open>operator->\<close> as its only operation: constructing and destroying it calls nothing.
\<close>

record unsafe_accessor =
  unsafe_resource :: reference

definition unsafe_accessor_ctor :: "reference \<Rightarrow> unsafe_accessor" where
  "unsafe_accessor_ctor resource_arg = \<lparr>unsafe_resource = resource_arg\<rparr>"

definition unsafe_accessor_ctor_calls :: "mutex_call list" where
  "unsafe_accessor_ctor_calls = []"

definition unsafe_accessor_dtor_calls :: "unsafe_accessor \<Rightarrow> mutex_call list" where
  "unsafe_accessor_dtor_calls a = []"

definition unsafe_accessor_arrow ::
  "unsafe_accessor \<Rightarrow> detail_member_access_operator_decorator" where
  "unsafe_accessor_arrow a = \<lparr>detail_value = unsafe_resource a\<rparr>"

text \<open>
  \<^verbatim>\<open>concurrent_resource\<close> (lines 192-237): the base \<^verbatim>\<open>lockable<>\<close> contributes
  \<^verbatim>\<open>rwlock\<close>, the class itself \<^verbatim>\<open>resource\<close>.
\<close>

record 'v concurrent_resource =
  rwlock :: shared_mutex_t
  cr_resource :: 'v

definition read_access ::
  "obj_id \<Rightarrow> 'v concurrent_resource \<Rightarrow> (detail_accessor \<times> 'v concurrent_resource) outcome"
  where
  "read_access this cr =
     (case detail_accessor_ctor read_lock (Ref Const this) this (rwlock cr) of
        Returns (a, m') \<Rightarrow> Returns (a, cr\<lparr>rwlock := m'\<rparr>)
      | Blocks \<Rightarrow> Blocks
      | Undefined_behaviour \<Rightarrow> Undefined_behaviour)"

definition write_access ::
  "obj_id \<Rightarrow> 'v concurrent_resource \<Rightarrow> (detail_accessor \<times> 'v concurrent_resource) outcome"
  where
  "write_access this cr =
     (case detail_accessor_ctor write_lock (Ref Mutable this) this (rwlock cr) of
        Returns (a, m') \<Rightarrow> Returns (a, cr\<lparr>rwlock := m'\<rparr>)
      | Blocks \<Rightarrow> Blocks
      | Undefined_behaviour \<Rightarrow> Undefined_behaviour)"

subsection \<open>The entry points as declared\<close>

text \<open>
  Every entry point of both wrappers is a function whose body is a single
  \<^verbatim>\<open>return\<close> of a braced list: in \<^verbatim>\<open>concurrent_resource.hpp\<close> the list
  initialises the declared return type (\<^verbatim>\<open>return {resource, rwlock};\<close>), in
  \<^verbatim>\<open>concurrent.hpp\<close> it initialises the class named before it
  (\<^verbatim>\<open>return shared_accessor_t{ lockable, resource };\<close>), which the deduced return type
  then is. The tables below record, for each entry point, the class it returns, the
  arguments of the braced list, and for each accessor class the parameter lists of its
  constructors: for \<^verbatim>\<open>read_accessor\<close> and \<^verbatim>\<open>write_accessor\<close> the one constructor
  inherited from \<^verbatim>\<open>detail::accessor\<close> (line 109), for \<^verbatim>\<open>accessor\<close> the two of
  lines 208 and 219; \<^verbatim>\<open>unsafe_read_accessor\<close> and \<^verbatim>\<open>unsafe_write_accessor\<close>
  (lines 163-169) have an empty body and inherit none.
\<close>

datatype entry_point =
    Read_access | Write_access | Unsafe_read_access | Unsafe_write_access
  | Read_access_handle | Write_access_handle

datatype accessor_class =
    Read_accessor | Write_accessor | Unsafe_read_accessor | Unsafe_write_accessor
  | Shared_accessor_t | Exclusive_accessor_t

datatype result_type = Accessor_object accessor_class | Boolean

datatype ctor_param = Param_resource | Param_mutex | Param_lock

fun declared_return :: "entry_point \<Rightarrow> result_type" where
  "declared_return Read_access = Accessor_object Read_accessor"
| "declared_return Write_access = Accessor_object Write_accessor"
| "declared_return Unsafe_read_access = Accessor_object Read_accessor"
| "declared_return Unsafe_write_access = Accessor_object Write_accessor"
| "declared_return Read_access_handle = Accessor_object Shared_accessor_t"
| "declared_return Write_access_handle = Accessor_object Exclusive_accessor_t"

fun braced_list :: "entry_point \<Rightarrow> ctor_param list" where
  "braced_list Read_access = [Param_resource, Param_mutex]"
| "braced_list Write_access = [Param_resource, Param_mutex]"
| "braced_list Unsafe_read_access = [Param_resource]"
| "braced_list Unsafe_write_access = [Param_resource]"
| "braced_list Read_access_handle = [Param_mutex, Param_resource]"
| "braced_list Write_access_handle = [Param_mutex, Param_resource]"

fun constructors :: "accessor_class \<Rightarrow> ctor_param list list" where
  "constructors Read_accessor = [[Param_resource, Param_mutex]]"
| "constructors Write_accessor = [[Param_resource, Param_mutex]]"
| "constructors Unsafe_read_accessor = []"
| "constructors Unsafe_write_accessor = []"
| "constructors Shared_accessor_t = [[Param_mutex, Param_resource], [Param_lock, Param_resource]]"
| "constructors Exclusive_accessor_t = [[Param_mutex, Param_resource], [Param_lock, Param_resource]]"

datatype ill_formed = No_matching_constructor

fun list_initialise :: "result_type \<Rightarrow> ctor_param list \<Rightarrow> ill_formed + ctor_param list" where
  "list_initialise (Accessor_object c) args =
     (if args \<in> set (constructors c) then Inr args else Inl No_matching_constructor)"
| "list_initialise Boolean args = Inl No_matching_constructor"

definition instantiate_entry :: "entry_point \<Rightarrow> ill_formed + ctor_param list" where
  "instantiate_entry e = list_initialise (declared_return e) (braced_list e)"

text \<open>
  The public entry points of each wrapper. \<^verbatim>\<open>concurrent_resource\<close> has no lock type
  parameter; those of \<^verbatim>\<open>concurrent\<close> are the same for every lock type it is
  instantiated with.
\<close>

definition concurrent_resource_entry_points :: "entry_point list" where
  "concurrent_resource_entry_points =
     [Read_access, Write_access, Unsafe_read_access, Unsafe_write_access]"

definition concurrent_entry_points :: "lock_type \<Rightarrow> entry_point list" where
  "concurrent_entry_points T = [Read_access_handle, Write_access_handle]"

fun returns_boolean :: "entry_point \<Rightarrow> bool" where
  "returns_boolean e = (declared_return e = Boolean)"

definition has_bounded_wait :: "entry_point list \<Rightarrow> bool" where
  "has_bounded_wait es = list_ex returns_boolean es"

subsection \<open>Template heads\<close>

text \<open>
  The constraint each template puts on its lock type parameter: \<^verbatim>\<open>concurrent\<close>
  (line 285) and \<^verbatim>\<open>shared_accessor\<close> (line 265) ask for \<^verbatim>\<open>basic_shared_lockable\<close>,
  \<^verbatim>\<open>exclusive_accessor\<close> (line 268) for \<^verbatim>\<open>basic_lockable\<close>; class \<^verbatim>\<open>accessor\<close>
  (line 197) constrains only its resource parameter, and \<^verbatim>\<open>lockable\<close> of
  \<^verbatim>\<open>concurrent_resource.hpp\<close> (line 177) has a plain \<^verbatim>\<open>typename\<close> parameter.
\<close>

datatype component =
    Component_concurrent | Component_shared_accessor | Component_exclusive_accessor
  | Component_accessor lock_kind | Component_lockable

fun template_constraint :: "component \<Rightarrow> lock_type \<Rightarrow> bool" where
  "template_constraint Component_concurrent T = basic_shared_lockable T"
| "template_constraint Component_shared_accessor T = basic_shared_lockable T"
| "template_constraint Component_exclusive_accessor T = basic_lockable T"
| "template_constraint (Component_accessor LockType) T = True"
| "template_constraint Component_lockable T = True"

datatype constraint_error = Constraints_not_satisfied

definition check_constraints :: "component \<Rightarrow> lock_type \<Rightarrow> constraint_error + unit" where
  "check_constraints c T =
     (if template_constraint c T then Inr () else Inl Constraints_not_satisfied)"

text \<open>
  The operations each component has its guards invoke on the lock: \<^verbatim>\<open>concurrent\<close>
  builds a shared and an exclusive guard on its lockable, \<^verbatim>\<open>shared_accessor\<close> a shared
  one, \<^verbatim>\<open>exclusive_accessor\<close> an exclusive one (with the guard templates of
  \<^verbatim>\<open>concurrent_stl.hpp\<close>), class \<^verbatim>\<open>accessor\<close> the guard it is given; \<^verbatim>\<open>lockable\<close>
  holds the read-write lock that \<^verbatim>\<open>concurrent_resource\<close> hands to \<^verbatim>\<open>read_lock\<close> and
  \<^verbatim>\<open>write_lock\<close>.
\<close>

fun operations_used :: "component \<Rightarrow> lock_op list" where
  "operations_used Component_concurrent =
     guard_requires stl_SharedLockType @ guard_requires stl_ExclusiveLockType"
| "operations_used Component_shared_accessor = guard_requires stl_SharedLockType"
| "operations_used Component_exclusive_accessor = guard_requires stl_ExclusiveLockType"
| "operations_used (Component_accessor LockType) = guard_requires LockType"
| "operations_used Component_lockable = guard_requires read_lock @ guard_requires write_lock"

definition lacks_operation :: "lock_type \<Rightarrow> lock_op list \<Rightarrow> bool" where
  "lacks_operation T ops = list_ex (\<lambda>m. T m = None) ops"

section \<open>Wrappers, live accessors and threads\<close>

text \<open>
  Constructing a wrapper constructs the mutex in its initial state. \<^verbatim>\<open>concurrent\<close>
  (lines 300-330) initialises its resource from nothing, from a copy or from a moved
  value; \<^verbatim>\<open>concurrent_resource\<close> declares no constructor and default-initialises it.
  In each case \<open>v\<close> is the value the resource starts with.
\<close>

definition concurrent_resource_ctor :: "'v \<Rightarrow> 'v concurrent_resource" where
  "concurrent_resource_ctor v = \<lparr>rwlock = Unlocked, cr_resource = v\<rparr>"

definition concurrent_ctor :: "'v \<Rightarrow> 'v concurrent" where
  "concurrent_ctor v = \<lparr>resource = v, lockable_obj = Unlocked\<rparr>"

datatype 'v wrapper = Of_concurrent_resource "'v concurrent_resource" | Of_concurrent "'v concurrent"

datatype any_accessor = Detail detail_accessor | Handle accessor

fun wrapper_mutex :: "'v wrapper \<Rightarrow> shared_mutex_t" where
  "wrapper_mutex (Of_concurrent_resource cr) = rwlock cr"
| "wrapper_mutex (Of_concurrent c) = lockable_obj c"

fun with_mutex :: "shared_mutex_t \<Rightarrow> 'v wrapper \<Rightarrow> 'v wrapper" where
  "with_mutex m (Of_concurrent_resource cr) = Of_concurrent_resource (cr\<lparr>rwlock := m\<rparr>)"
| "with_mutex m (Of_concurrent c) = Of_concurrent (c\<lparr>lockable_obj := m\<rparr>)"

fun wrapper_resource :: "'v wrapper \<Rightarrow> 'v" where
  "wrapper_resource (Of_concurrent_resource cr) = cr_resource cr"
| "wrapper_resource (Of_concurrent c) = resource c"

fun with_resource :: "'v \<Rightarrow> 'v wrapper \<Rightarrow> 'v wrapper" where
  "with_resource v (Of_concurrent_resource cr) = Of_concurrent_resource (cr\<lparr>cr_resource := v\<rparr>)"
| "with_resource v (Of_concurrent c) = Of_concurrent (c\<lparr>resource := v\<rparr>)"

fun guard_of :: "any_accessor \<Rightarrow> lock_guard" where
  "guard_of (Detail a) = detail_lock a"
| "guard_of (Handle a) = lock a"

fun deref :: "any_accessor \<Rightarrow> reference" where
  "deref (Detail a) = detail_accessor_deref a"
| "deref (Handle a) = accessor_deref a"

fun move_construct :: "any_accessor \<Rightarrow> any_accessor \<times> any_accessor" where
  "move_construct (Detail a) =
     (Detail (fst (detail_accessor_move a)), Detail (snd (detail_accessor_move a)))"
| "move_construct (Handle a) = (Handle (fst (accessor_move a)), Handle (snd (accessor_move a)))"

fun destructor :: "any_accessor \<Rightarrow> shared_mutex_t \<Rightarrow> shared_mutex_t outcome" where
  "destructor (Detail a) m = detail_accessor_dtor a m"
| "destructor (Handle a) m = accessor_dtor a m"

fun destructor_calls :: "any_accessor \<Rightarrow> mutex_call list" where
  "destructor_calls (Detail a) = detail_accessor_dtor_calls a"
| "destructor_calls (Handle a) = accessor_dtor_calls a"

text \<open>
  The shared and the exclusive entry point of a wrapper object \<open>w\<close>; a
  \<^verbatim>\<open>concurrent\<close> is instantiated with the guards of \<^verbatim>\<open>concurrent_stl.hpp\<close>.
\<close>

fun shared_entry :: "obj_id \<Rightarrow> 'v wrapper \<Rightarrow> (any_accessor \<times> 'v wrapper) outcome" where
  "shared_entry w (Of_concurrent_resource cr) =
     (case read_access w cr of
        Returns (a, cr') \<Rightarrow> Returns (Detail a, Of_concurrent_resource cr')
      | Blocks \<Rightarrow> Blocks
      | Undefined_behaviour \<Rightarrow> Undefined_behaviour)"
| "shared_entry w (Of_concurrent c) =
     (case read_access_handle stl_SharedLockType w c of
        Returns (a, c') \<Rightarrow> Returns (Handle a, Of_concurrent c')
      | Blocks \<Rightarrow> Blocks
      | Undefined_behaviour \<Rightarrow> Undefined_behaviour)"

fun exclusive_entry :: "obj_id \<Rightarrow> 'v wrapper \<Rightarrow> (any_accessor \<times> 'v wrapper) outcome" where
  "exclusive_entry w (Of_concurrent_resource cr) =
     (case write_access w cr of
        Returns (a, cr') \<Rightarrow> Returns (Detail a, Of_concurrent_resource cr')
      | Blocks \<Rightarrow> Blocks
      | Undefined_behaviour \<Rightarrow> Undefined_behaviour)"
| "exclusive_entry w (Of_concurrent c) =
     (case write_access_handle stl_ExclusiveLockType w c of
        Returns (a, c') \<Rightarrow> Returns (Handle a, Of_concurrent c')
      | Blocks \<Rightarrow> Blocks
      | Undefined_behaviour \<Rightarrow> Undefined_behaviour)"

text \<open>
  The state shared by the threads: the wrapper objects, and the accessor objects that
  are alive, each with the thread in whose scope it lives. A moved-from accessor stays
  alive until its own destructor runs.
\<close>

type_synonym tid = nat

record 'v system =
  wrappers :: "obj_id \<Rightarrow> 'v wrapper"
  live :: "(tid \<times> any_accessor) list"

datatype event =
    Ev_read_access obj_id
  | Ev_write_access obj_id
  | Ev_move nat
  | Ev_destroy nat

definition remove_nth :: "nat \<Rightarrow> 'a list \<Rightarrow> 'a list" where
  "remove_nth i xs = take i xs @ drop (Suc i) xs"

definition enter ::
  "tid \<Rightarrow> obj_id \<Rightarrow> (any_accessor \<times> 'v wrapper) outcome \<Rightarrow> 'v system \<Rightarrow> 'v system outcome"
  where
  "enter t w r s =
     (case r of
        Returns (a, wr') \<Rightarrow>
          Returns (s\<lparr>wrappers := (wrappers s)(w := wr'), live := live s @ [(t, a)]\<rparr>)
      | Blocks \<Rightarrow> Blocks
      | Undefined_behaviour \<Rightarrow> Undefined_behaviour)"

text \<open>
  One step of thread \<open>t\<close>. An entry point that finds the lock busy does not return:
  the step is \<open>Blocks\<close>, and the thread takes it once it is enabled. Moving from or
  destroying an object that does not exist is undefined.
\<close>

fun step :: "tid \<times> event \<Rightarrow> 'v system \<Rightarrow> 'v system outcome" where
  "step (t, Ev_read_access w) s = enter t w (shared_entry w (wrappers s w)) s"
| "step (t, Ev_write_access w) s = enter t w (exclusive_entry w (wrappers s w)) s"
| "step (t, Ev_move i) s =
     (if i < length (live s)
      then Returns (s\<lparr>live :=
             (live s)[i := (fst (live s ! i), snd (move_construct (snd (live s ! i))))]
               @ [(t, fst (move_construct (snd (live s ! i))))]\<rparr>)
      else Undefined_behaviour)"
| "step (t, Ev_destroy i) s =
     (if i < length (live s)
      then (case pm (guard_of (snd (live s ! i))) of
              None \<Rightarrow>
                (if destructor_calls (snd (live s ! i)) = []
                 then Returns (s\<lparr>live := remove_nth i (live s)\<rparr>)
                 else Undefined_behaviour)
            | Some w \<Rightarrow>
                (case destructor (snd (live s ! i)) (wrapper_mutex (wrappers s w)) of
                   Returns m' \<Rightarrow>
                     Returns (s\<lparr>wrappers := (wrappers s)(w := with_mutex m' (wrappers s w)),
                               live := remove_nth i (live s)\<rparr>)
                 | Blocks \<Rightarrow> Blocks
                 | Undefined_behaviour \<Rightarrow> Undefined_behaviour))
      else Undefined_behaviour)"

fun run :: "(tid \<times> event) list \<Rightarrow> 'v system \<Rightarrow> 'v system outcome" where
  "run [] s = Returns s"
| "run (e # es) s =
     (case step e s of
        Returns s' \<Rightarrow> run es s'
      | Blocks \<Rightarrow> Blocks
      | Undefined_behaviour \<Rightarrow> Undefined_behaviour)"

datatype header = Concurrent_resource_hpp | Concurrent_hpp

fun construct_wrapper :: "header \<Rightarrow> 'v \<Rightarrow> 'v wrapper" where
  "construct_wrapper Concurrent_resource_hpp v = Of_concurrent_resource (concurrent_resource_ctor v)"
| "construct_wrapper Concurrent_hpp v = Of_concurrent (concurrent_ctor v)"

definition fresh_system :: "(obj_id \<Rightarrow> header) \<Rightarrow> (obj_id \<Rightarrow> 'v) \<Rightarrow> 'v system" where
  "fresh_system hs vs = \<lparr>wrappers = (\<lambda>w. construct_wrapper (hs w) (vs w)), live = []\<rparr>"

text \<open>The guards held on the mutex of wrapper \<open>w\<close>, by kind.\<close>

definition holds_guard :: "lock_kind \<Rightarrow> obj_id \<Rightarrow> any_accessor \<Rightarrow> bool" where
  "holds_guard k w a =
     (owns (guard_of a) \<and> pm (guard_of a) = Some w \<and> g_kind (guard_of a) = k)"

definition guards_held :: "lock_kind \<Rightarrow> obj_id \<Rightarrow> 'v system \<Rightarrow> nat" where
  "guards_held k w s = length (filter (holds_guard k w) (map snd (live s)))"

definition no_guards :: "obj_id \<Rightarrow> 'v system \<Rightarrow> bool" where
  "no_guards w s = (guards_held Shared_lock w s = 0 \<and> guards_held Unique_lock w s = 0)"

definition shared_only :: "obj_id \<Rightarrow> 'v system \<Rightarrow> bool" where
  "shared_only w s = (1 \<le> guards_held Shared_lock w s \<and> guards_held Unique_lock w s = 0)"

definition exclusive_only :: "obj_id \<Rightarrow> 'v system \<Rightarrow> bool" where
  "exclusive_only w s = (guards_held Unique_lock w s = 1 \<and> guards_held Shared_lock w s = 0)"

text \<open>Reading and assigning through a reference; a \<^verbatim>\<open>const\<close> reference cannot be assigned.\<close>

definition ref_read :: "reference \<Rightarrow> (obj_id \<Rightarrow> 'v wrapper) \<Rightarrow> 'v" where
  "ref_read r ws = wrapper_resource (ws (ref_target r))"

datatype const_error = Assignment_of_read_only_location

fun ref_assign ::
  "reference \<Rightarrow> 'v \<Rightarrow> (obj_id \<Rightarrow> 'v wrapper) \<Rightarrow> const_error + (obj_id \<Rightarrow> 'v wrapper)" where
  "ref_assign (Ref Const w) v ws = Inl Assignment_of_read_only_location"
| "ref_assign (Ref Mutable w) v ws = Inr (ws(w := with_resource v (ws w)))"

text \<open>Member selection through a pointer: \<^verbatim>\<open>p->m\<close>, for a member \<open>m\<close> of the resource type.\<close>

definition select_member :: "pointer \<Rightarrow> ('v \<Rightarrow> 'm) \<Rightarrow> (obj_id \<Rightarrow> 'v wrapper) \<Rightarrow> 'm" where
  "select_member p m ws = m (wrapper_resource (ws (ptr_target p)))"

text \<open>
  The expression \<^verbatim>\<open>a->m\<close> on an accessor \<open>a\<close>: \<^verbatim>\<open>operator->\<close> of the accessor, then
  \<^verbatim>\<open>operator->\<close> of the decorator it returns, then selection of \<open>m\<close> through the
  pointer that one returns.
\<close>

definition accessor_member_access ::
  "accessor \<Rightarrow> ('v \<Rightarrow> 'm) \<Rightarrow> (obj_id \<Rightarrow> 'v wrapper) \<Rightarrow> declaration_error + 'm" where
  "accessor_member_access a m ws =
     (case decorator_arrow (accessor_arrow a) of
        Inl e \<Rightarrow> Inl e
      | Inr p \<Rightarrow> Inr (select_member p m ws))"

definition detail_accessor_member_access ::
  "detail_accessor \<Rightarrow> ('v \<Rightarrow> 'm) \<Rightarrow> (obj_id \<Rightarrow> 'v wrapper) \<Rightarrow> declaration_error + 'm" where
  "detail_accessor_member_access a m ws =
     (case detail_decorator_arrow (detail_accessor_arrow a) of
        Inl e \<Rightarrow> Inl e
      | Inr p \<Rightarrow> Inr (select_member p m ws))"

section \<open>The lock state against the guards alive\<close>

text \<open>
  The state of a mutex agrees with the number of shared and of exclusive guards held on
  it; every guard that owns a lock points to its mutex.
\<close>

fun agrees :: "shared_mutex_t \<Rightarrow> nat \<Rightarrow> nat \<Rightarrow> bool" where
  "agrees Unlocked sh ex = (sh = 0 \<and> ex = 0)"
| "agrees (SharedLocked n) sh ex = (1 \<le> n \<and> sh = n \<and> ex = 0)"
| "agrees ExclusiveLocked sh ex = (ex = 1 \<and> sh = 0)"

definition consistent :: "obj_id \<Rightarrow> 'v system \<Rightarrow> bool" where
  "consistent w s =
     agrees (wrapper_mutex (wrappers s w))
       (guards_held Shared_lock w s) (guards_held Unique_lock w s)"

definition guards_bound :: "'v system \<Rightarrow> bool" where
  "guards_bound s =
     list_all (\<lambda>a. owns (guard_of a) \<longrightarrow> pm (guard_of a) \<noteq> None) (map snd (live s))"

definition invariant :: "'v system \<Rightarrow> bool" where
  "invariant s = ((\<forall>w. consistent w s) \<and> guards_bound s)"


text \<open>A run of three threads on two wrappers, one of each header.\<close>

definition demo_trace :: "(tid \<times> event) list" where
  "demo_trace =
     [(1, Ev_read_access 0), (2, Ev_read_access 0), (1, Ev_move 0), (2, Ev_destroy 1),
      (1, Ev_destroy 0), (3, Ev_write_access 1)]"

definition demo_system :: "nat system" where
  "demo_system = fresh_system (\<lambda>w. if w = 0 then Concurrent_hpp else Concurrent_resource_hpp) (\<lambda>w. 0)"







text \<open>A resource that is itself an indirection: a pointer to another object.\<close>

definition pointer_wrappers :: "obj_id \<Rightarrow> pointer wrapper" where
  "pointer_wrappers w = construct_wrapper Concurrent_hpp (Ptr Mutable (w + 10))"

section \<open>Properties\<close>

subsection \<open>Capabilities\<close>


lemmas capability_defs =
  requires_same_as_def basic_lockable_def lockable_def timed_lockable_def
  basic_shared_lockable_def shared_lockable_def shared_timed_lockable_def

text \<open>
  C6. The capability predicates form a hierarchy: \<open>timed_lockable\<close> implies
  \<open>lockable\<close> implies \<open>basic_lockable\<close>, and \<open>shared_timed_lockable\<close> implies
  \<open>shared_lockable\<close> implies \<open>basic_shared_lockable\<close> implies \<open>basic_lockable\<close>,
  for every candidate type. Every step is strict: some type satisfies the weaker
  predicate and not the stronger one.
\<close>

theorem capability_hierarchy:
  "(timed_lockable T \<longrightarrow> lockable T)
   \<and> (lockable T \<longrightarrow> basic_lockable T)
   \<and> (shared_timed_lockable T \<longrightarrow> shared_lockable T)
   \<and> (shared_lockable T \<longrightarrow> basic_shared_lockable T)
   \<and> (basic_shared_lockable T \<longrightarrow> basic_lockable T)
   \<and> (lockable std_mutex \<and> \<not> timed_lockable std_mutex)
   \<and> (basic_lockable only_basic \<and> \<not> lockable only_basic)
   \<and> (shared_lockable std_shared_mutex \<and> \<not> shared_timed_lockable std_shared_mutex)
   \<and> (basic_shared_lockable only_basic_shared \<and> \<not> shared_lockable only_basic_shared)
   \<and> (basic_lockable std_mutex \<and> \<not> basic_shared_lockable std_mutex)"
proof -
  have up: "(timed_lockable T \<longrightarrow> lockable T) \<and> (lockable T \<longrightarrow> basic_lockable T)
      \<and> (shared_timed_lockable T \<longrightarrow> shared_lockable T)
      \<and> (shared_lockable T \<longrightarrow> basic_shared_lockable T)
      \<and> (basic_shared_lockable T \<longrightarrow> basic_lockable T)"
    by (simp add: timed_lockable_def lockable_def shared_timed_lockable_def
        shared_lockable_def basic_shared_lockable_def)
  have s1: "lockable std_mutex \<and> \<not> timed_lockable std_mutex"
    by (simp add: capability_defs)
  have s2: "basic_lockable only_basic \<and> \<not> lockable only_basic"
    by (simp add: capability_defs only_basic_def)
  have s3: "shared_lockable std_shared_mutex \<and> \<not> shared_timed_lockable std_shared_mutex"
    by (simp add: capability_defs)
  have s4: "basic_shared_lockable only_basic_shared \<and> \<not> shared_lockable only_basic_shared"
    by (simp add: capability_defs only_basic_shared_def only_basic_def)
  have s5: "basic_lockable std_mutex \<and> \<not> basic_shared_lockable std_mutex"
    by (simp add: capability_defs)
  from up s1 s2 s3 s4 s5 show ?thesis by blast
qed

theorem capability_hierarchy_witness:
  "timed_lockable std_shared_timed_mutex \<and> lockable std_shared_timed_mutex
   \<and> basic_lockable std_shared_timed_mutex
   \<and> shared_timed_lockable std_shared_timed_mutex \<and> shared_lockable std_shared_timed_mutex
   \<and> basic_shared_lockable std_shared_timed_mutex"
proof -
  have t: "timed_lockable std_shared_timed_mutex"
    by (simp add: capability_defs)
  have s: "shared_timed_lockable std_shared_timed_mutex"
    by (simp add: capability_defs)
  from t s capability_hierarchy [of std_shared_timed_mutex] show ?thesis by blast
qed

subsection \<open>The invariant of the lock state\<close>

lemma count_remove_nth:
  "i < length xs \<Longrightarrow>
   length (filter P (remove_nth i xs)) + (if P (xs ! i) then 1 else 0) = length (filter P xs)"
proof -
  assume i: "i < length xs"
  have "length (filter P xs) = length (filter P (take i xs @ xs ! i # drop (Suc i) xs))"
    using id_take_nth_drop [OF i] by simp
  then show ?thesis by (simp add: remove_nth_def)
qed

lemma count_update:
  "i < length xs \<Longrightarrow>
   length (filter P (xs[i := y])) + (if P (xs ! i) then 1 else 0)
     = length (filter P xs) + (if P y then 1 else 0)"
proof -
  assume i: "i < length xs"
  have a: "length (filter P xs) = length (filter P (take i xs @ xs ! i # drop (Suc i) xs))"
    using id_take_nth_drop [OF i] by simp
  have b: "xs[i := y] = take i xs @ y # drop (Suc i) xs"
    using upd_conv_take_nth_drop [OF i] .
  show ?thesis unfolding b using a by simp
qed

lemma agrees_lock_shared:
  "agrees m sh ex \<Longrightarrow> perform Call_lock_shared m = Returns m' \<Longrightarrow> agrees m' (Suc sh) ex"
  by (cases m) auto

lemma agrees_lock:
  "agrees m sh ex \<Longrightarrow> perform Call_lock m = Returns m' \<Longrightarrow> agrees m' sh (Suc ex)"
  by (cases m) auto

lemma agrees_unlock_shared:
  "agrees m (Suc sh) ex \<Longrightarrow> \<exists>m'. perform Call_unlock_shared m = Returns m' \<and> agrees m' sh ex"
  by (cases m) auto

lemma agrees_unlock:
  "agrees m sh (Suc ex) \<Longrightarrow> \<exists>m'. perform Call_unlock m = Returns m' \<and> agrees m' sh ex"
  by (cases m) auto

lemma invariant_fresh: "invariant (fresh_system hs vs)"
proof -
  have "consistent w (fresh_system hs vs)" for w
    by (cases "hs w")
      (simp_all add: consistent_def fresh_system_def guards_held_def
        concurrent_resource_ctor_def concurrent_ctor_def)
  moreover have "guards_bound (fresh_system hs vs)"
    by (simp add: guards_bound_def fresh_system_def)
  ultimately show ?thesis by (simp add: invariant_def)
qed

lemmas entry_defs =
  read_access_def write_access_def read_access_handle_def write_access_handle_def
  shared_accessor_def exclusive_accessor_def accessor_ctor_def detail_accessor_ctor_def
  guard_ctor_def guard_ctor_calls_def read_lock_def write_lock_def
  stl_SharedLockType_def stl_ExclusiveLockType_def

lemmas view_defs =
  accessor_deref_def detail_accessor_deref_def accessor_arrow_def decorator_arrow_def
  detail_accessor_arrow_def detail_decorator_arrow_def

lemma shared_entry_Returns:
  assumes "shared_entry w wr = Returns (a, wr')"
  shows "perform Call_lock_shared (wrapper_mutex wr) = Returns (wrapper_mutex wr')
    \<and> wr' = with_mutex (wrapper_mutex wr') wr
    \<and> guard_of a = \<lparr>g_kind = Shared_lock, pm = Some w, owns = True\<rparr>
    \<and> deref a = Ref Const w"
proof (cases wr)
  case (Of_concurrent_resource cr)
  with assms show ?thesis
    by (cases "perform Call_lock_shared (rwlock cr)") (auto simp: entry_defs view_defs)
next
  case (Of_concurrent c)
  with assms show ?thesis
    by (cases "perform Call_lock_shared (lockable_obj c)") (auto simp: entry_defs view_defs)
qed

lemma exclusive_entry_Returns:
  assumes "exclusive_entry w wr = Returns (a, wr')"
  shows "perform Call_lock (wrapper_mutex wr) = Returns (wrapper_mutex wr')
    \<and> wr' = with_mutex (wrapper_mutex wr') wr
    \<and> guard_of a = \<lparr>g_kind = Unique_lock, pm = Some w, owns = True\<rparr>
    \<and> deref a = Ref Mutable w"
proof (cases wr)
  case (Of_concurrent_resource cr)
  with assms show ?thesis
    by (cases "perform Call_lock (rwlock cr)") (auto simp: entry_defs view_defs)
next
  case (Of_concurrent c)
  with assms show ?thesis
    by (cases "perform Call_lock (lockable_obj c)") (auto simp: entry_defs view_defs)
qed

lemma wrapper_mutex_with_mutex [simp]: "wrapper_mutex (with_mutex m wr) = m"
  by (cases wr) simp_all

lemma wrapper_resource_with_mutex [simp]:
  "wrapper_resource (with_mutex m wr) = wrapper_resource wr"
  by (cases wr) simp_all


lemma with_mutex_same [simp]: "with_mutex (wrapper_mutex wr) wr = wr"
  by (cases wr) simp_all

lemma guards_held_enter:
  "guards_held k w (s\<lparr>wrappers := ws, live := live s @ [(t, a)]\<rparr>)
     = guards_held k w s + (if holds_guard k w a then 1 else 0)"
  by (simp add: guards_held_def)

lemma guards_held_wrappers [simp]:
  "guards_held k w (s\<lparr>wrappers := ws\<rparr>) = guards_held k w s"
  by (simp add: guards_held_def)

lemma holds_guard_fresh:
  "guard_of a = \<lparr>g_kind = k0, pm = Some w0, owns = True\<rparr> \<Longrightarrow>
   holds_guard k w a \<longleftrightarrow> k = k0 \<and> w = w0"
  by (auto simp: holds_guard_def)

lemma enter_preserves:
  assumes inv: "invariant s"
    and g: "guard_of a = \<lparr>g_kind = k0, pm = Some w0, owns = True\<rparr>"
    and p: "perform (acquire_call k0) (wrapper_mutex (wrappers s w0)) = Returns (wrapper_mutex wr')"
  shows "invariant (s\<lparr>wrappers := (wrappers s)(w0 := wr'), live := live s @ [(t, a)]\<rparr>)"
proof -
  let ?s' = "s\<lparr>wrappers := (wrappers s)(w0 := wr'), live := live s @ [(t, a)]\<rparr>"
  have c: "consistent w s" for w using inv by (simp add: invariant_def)
  have "consistent w ?s'" for w
  proof (cases "w = w0")
    case True
    show ?thesis
    proof (cases k0)
      case Shared_lock
      with p c [of w0] True g show ?thesis
        by (simp add: consistent_def guards_held_enter holds_guard_fresh agrees_lock_shared)
    next
      case Unique_lock
      with p c [of w0] True g show ?thesis
        by (simp add: consistent_def guards_held_enter holds_guard_fresh agrees_lock)
    qed
  next
    case False
    with c [of w] g show ?thesis
      by (simp add: consistent_def guards_held_enter holds_guard_fresh)
  qed
  moreover have "guards_bound ?s'"
    using inv g by (simp add: invariant_def guards_bound_def)
  ultimately show ?thesis by (simp add: invariant_def)
qed

lemma list_all_update:
  "list_all P xs \<Longrightarrow> P y \<Longrightarrow> list_all P (xs[i := y])"
  using set_update_subset_insert [of xs i y] by (auto simp: list_all_iff)

lemma guard_of_move:
  "guard_of (fst (move_construct a)) = guard_of a"
  "guard_of (snd (move_construct a)) = (guard_of a)\<lparr>pm := None, owns := False\<rparr>"
  by (cases a; simp add: accessor_move_def detail_accessor_move_def guard_move_def)+

lemma holds_guard_moved:
  "holds_guard k w (fst (move_construct a)) = holds_guard k w a"
  "\<not> holds_guard k w (snd (move_construct a))"
  by (simp_all add: holds_guard_def guard_of_move)

lemma move_preserves:
  assumes inv: "invariant s" and i: "i < length (live s)"
  shows "invariant (s\<lparr>live :=
             (live s)[i := (fst (live s ! i), snd (move_construct (snd (live s ! i))))]
               @ [(t, fst (move_construct (snd (live s ! i))))]\<rparr>)"
    (is "invariant ?s'")
proof -
  let ?a = "snd (live s ! i)"
  let ?xs = "map snd (live s)"
  have i': "i < length ?xs" using i by simp
  have nth: "?xs ! i = ?a" using i by simp
  have held: "guards_held k w ?s' = guards_held k w s" for k w
  proof -
    have "guards_held k w ?s'
        = length (filter (holds_guard k w) (?xs[i := snd (move_construct ?a)]))
          + (if holds_guard k w ?a then 1 else 0)"
      by (simp add: guards_held_def map_update holds_guard_moved)
    also have "\<dots> = length (filter (holds_guard k w) ?xs)"
      using count_update [OF i', of "holds_guard k w" "snd (move_construct ?a)"]
      by (simp add: nth holds_guard_moved)
    finally show ?thesis by (simp add: guards_held_def)
  qed
  have "consistent w ?s'" for w
    using inv by (simp add: invariant_def consistent_def held)
  moreover have "guards_bound ?s'"
  proof -
    have all: "list_all (\<lambda>a. owns (guard_of a) \<longrightarrow> pm (guard_of a) \<noteq> None) ?xs"
      using inv by (simp add: invariant_def guards_bound_def)
    then have orig: "owns (guard_of ?a) \<longrightarrow> pm (guard_of ?a) \<noteq> None"
      using i by (auto simp: list_all_length)
    have upd: "list_all (\<lambda>a. owns (guard_of a) \<longrightarrow> pm (guard_of a) \<noteq> None)
        (?xs[i := snd (move_construct ?a)])"
      by (rule list_all_update [OF all]) (simp add: guard_of_move)
    show ?thesis
      using upd orig by (simp add: guards_bound_def map_update guard_of_move)
  qed
  ultimately show ?thesis by (simp add: invariant_def)
qed


lemma perform_all_single [simp]: "perform_all [c] m = perform c m"
  by (cases "perform c m") simp_all

lemma destructor_eq:
  "destructor a m =
     (if owns (guard_of a) then perform (release_call (g_kind (guard_of a))) m else Returns m)"
  by (cases a) (auto simp: accessor_dtor_def detail_accessor_dtor_def guard_dtor_def
      guard_dtor_calls_def split: outcome.splits)

lemma destructor_calls_eq:
  "destructor_calls a = (if owns (guard_of a) then [release_call (g_kind (guard_of a))] else [])"
  by (cases a) (simp_all add: accessor_dtor_calls_def detail_accessor_dtor_calls_def
      guard_dtor_calls_def)

lemma guards_held_remove:
  assumes "i < length (live s)" and "live s' = remove_nth i (live s)"
  shows "guards_held k w s' + (if holds_guard k w (snd (live s ! i)) then 1 else 0)
           = guards_held k w s"
proof -
  have i': "i < length (map snd (live s))" using assms by simp
  have "map snd (remove_nth i (live s)) = remove_nth i (map snd (live s))"
    by (simp add: remove_nth_def take_map drop_map)
  then show ?thesis
    using count_remove_nth [OF i', of "holds_guard k w"] assms
    by (simp add: guards_held_def)
qed

lemma guards_bound_remove:
  "guards_bound s \<Longrightarrow> live s' = remove_nth i (live s) \<Longrightarrow> guards_bound s'"
  by (auto simp: guards_bound_def remove_nth_def list_all_iff dest: in_set_takeD in_set_dropD)

lemma destroy_step:
  assumes inv: "invariant s" and i: "i < length (live s)"
  shows "\<exists>s'. step (t, Ev_destroy i) s = Returns s' \<and> invariant s'
           \<and> live s' = remove_nth i (live s)
           \<and> (\<forall>w. wrapper_resource (wrappers s' w) = wrapper_resource (wrappers s w))
           \<and> (\<forall>w. pm (guard_of (snd (live s ! i))) \<noteq> Some w
                  \<longrightarrow> wrappers s' w = wrappers s w)"
proof -
  let ?a = "snd (live s ! i)"
  let ?g = "guard_of ?a"
  have c: "consistent w s" for w using inv by (simp add: invariant_def)
  have gb: "guards_bound s" using inv by (simp add: invariant_def)
  then have bound: "owns ?g \<longrightarrow> pm ?g \<noteq> None"
    using i by (auto simp: guards_bound_def list_all_length)
  note rem = guards_held_remove [OF i]
  show ?thesis
  proof (cases "owns ?g")
    case False
    then have nh: "\<not> holds_guard k w ?a" for k w by (simp add: holds_guard_def)
    let ?s' = "s\<lparr>live := remove_nth i (live s)\<rparr>"
    have same: "guards_held k w ?s' = guards_held k w s" for k w
      using rem [of ?s' k w] nh by simp
    have inv': "invariant ?s'"
      using c gb guards_bound_remove [of s ?s' i]
      by (simp add: invariant_def consistent_def same)
    have "step (t, Ev_destroy i) s = Returns ?s'"
    proof (cases "pm ?g")
      case None
      then show ?thesis using i False by (simp add: destructor_calls_eq)
    next
      case (Some w0)
      then show ?thesis using i False by (simp add: destructor_eq)
    qed
    then show ?thesis using inv' by simp
  next
    case True
    with bound obtain w0 where w0: "pm ?g = Some w0" by auto
    let ?k = "g_kind ?g"
    let ?m = "wrapper_mutex (wrappers s w0)"
    have h: "holds_guard k w ?a \<longleftrightarrow> k = ?k \<and> w = w0" for k w
      using True w0 by (auto simp: holds_guard_def)
    have "\<exists>m'. perform (release_call ?k) ?m = Returns m'
        \<and> agrees m' (guards_held Shared_lock w0 s - (if ?k = Shared_lock then 1 else 0))
             (guards_held Unique_lock w0 s - (if ?k = Unique_lock then 1 else 0))"
    proof (cases ?k)
      case Shared_lock
      from rem [of "s\<lparr>live := remove_nth i (live s)\<rparr>" Shared_lock w0] h Shared_lock
      obtain n where n: "guards_held Shared_lock w0 s = Suc n" by (cases "guards_held Shared_lock w0 s") auto
      with c [of w0] agrees_unlock_shared [of ?m n "guards_held Unique_lock w0 s"] Shared_lock
      show ?thesis by (simp add: consistent_def)
    next
      case Unique_lock
      from rem [of "s\<lparr>live := remove_nth i (live s)\<rparr>" Unique_lock w0] h Unique_lock
      obtain n where n: "guards_held Unique_lock w0 s = Suc n" by (cases "guards_held Unique_lock w0 s") auto
      with c [of w0] agrees_unlock [of ?m "guards_held Shared_lock w0 s" n] Unique_lock
      show ?thesis by (simp add: consistent_def)
    qed
    then obtain m' where p: "perform (release_call ?k) ?m = Returns m'"
      and ag: "agrees m' (guards_held Shared_lock w0 s - (if ?k = Shared_lock then 1 else 0))
             (guards_held Unique_lock w0 s - (if ?k = Unique_lock then 1 else 0))"
      by blast
    let ?s' = "s\<lparr>wrappers := (wrappers s)(w0 := with_mutex m' (wrappers s w0)),
                 live := remove_nth i (live s)\<rparr>"
    have st: "step (t, Ev_destroy i) s = Returns ?s'"
      using i w0 True p by (simp add: destructor_eq)
    have held: "guards_held k w ?s' = guards_held k w s - (if k = ?k \<and> w = w0 then 1 else 0)"
      for k w
      using rem [of ?s' k w] h [of k w]
      by (simp split: if_splits)
    have "consistent w ?s'" for w
    proof (cases "w = w0")
      case True
      then show ?thesis using ag by (cases ?k) (simp_all add: consistent_def held)
    next
      case False
      then show ?thesis using c [of w] by (simp add: consistent_def held)
    qed
    with gb guards_bound_remove [of s ?s' i] have "invariant ?s'"
      by (simp add: invariant_def)
    with st w0 show ?thesis by simp
  qed
qed

lemma enter_Returns:
  "enter t w r s = Returns s' \<longleftrightarrow>
     (\<exists>a wr'. r = Returns (a, wr')
        \<and> s' = s\<lparr>wrappers := (wrappers s)(w := wr'), live := live s @ [(t, a)]\<rparr>)"
  by (cases r) (auto simp: enter_def)

lemma step_preserves:
  assumes inv: "invariant s" and st: "step e s = Returns s'"
  shows "invariant s'"
proof -
  obtain t ev where e: "e = (t, ev)" by (cases e)
  show ?thesis
  proof (cases ev)
    case (Ev_read_access w)
    with st e obtain a wr' where r: "shared_entry w (wrappers s w) = Returns (a, wr')"
      and s': "s' = s\<lparr>wrappers := (wrappers s)(w := wr'), live := live s @ [(t, a)]\<rparr>"
      by (auto simp: enter_Returns)
    from shared_entry_Returns [OF r] inv show ?thesis
      unfolding s' by (intro enter_preserves [where ?k0.0 = Shared_lock]) simp_all
  next
    case (Ev_write_access w)
    with st e obtain a wr' where r: "exclusive_entry w (wrappers s w) = Returns (a, wr')"
      and s': "s' = s\<lparr>wrappers := (wrappers s)(w := wr'), live := live s @ [(t, a)]\<rparr>"
      by (auto simp: enter_Returns)
    from exclusive_entry_Returns [OF r] inv show ?thesis
      unfolding s' by (intro enter_preserves [where ?k0.0 = Unique_lock]) simp_all
  next
    case (Ev_move i)
    with st e have i: "i < length (live s)" by (simp split: if_splits)
    from st e Ev_move i move_preserves [OF inv i, of t] show ?thesis by auto
  next
    case (Ev_destroy i)
    with st e have i: "i < length (live s)" by (simp split: if_splits)
    from destroy_step [OF inv i, of t] st e Ev_destroy show ?thesis by auto
  qed
qed

lemma run_preserves:
  "invariant s \<Longrightarrow> run es s = Returns s' \<Longrightarrow> invariant s'"
proof (induction es arbitrary: s)
  case Nil
  then show ?case by simp
next
  case (Cons e es)
  then show ?case
    by (cases "step e s") (auto dest: step_preserves)
qed

lemma reachable_invariant:
  "run es (fresh_system hs vs) = Returns s \<Longrightarrow> invariant s"
  using run_preserves [OF invariant_fresh] .

lemmas model_defs =
  entry_defs enter_def fresh_system_def concurrent_ctor_def concurrent_resource_ctor_def
  remove_nth_def accessor_move_def detail_accessor_move_def guard_move_def
  accessor_dtor_def detail_accessor_dtor_def guard_dtor_def guard_dtor_calls_def
  accessor_dtor_calls_def detail_accessor_dtor_calls_def


text \<open>
  C1. After every sequence of accessor constructions, moves and destructions on freshly
  constructed wrappers, the guards held on the lock of each wrapper are in exactly one of
  three situations: none is held; one or more shared guards and no exclusive guard are
  held; exactly one exclusive guard and no shared guard is held. The state of the lock
  itself agrees with the guards held.
\<close>

theorem lock_state_trichotomy:
  assumes "run evs (fresh_system hs vs) = Returns s"
  shows "((no_guards w s \<and> \<not> shared_only w s \<and> \<not> exclusive_only w s)
       \<or> (\<not> no_guards w s \<and> shared_only w s \<and> \<not> exclusive_only w s)
       \<or> (\<not> no_guards w s \<and> \<not> shared_only w s \<and> exclusive_only w s))
    \<and> agrees (wrapper_mutex (wrappers s w))
         (guards_held Shared_lock w s) (guards_held Unique_lock w s)"
proof -
  from reachable_invariant [OF assms] have "consistent w s"
    by (simp add: invariant_def)
  then show ?thesis
    by (cases "wrapper_mutex (wrappers s w)")
      (auto simp: consistent_def no_guards_def shared_only_def exclusive_only_def)
qed

lemma demo_returns: "\<exists>s. run demo_trace demo_system = Returns s"
  by (simp add: demo_trace_def demo_system_def model_defs)

theorem lock_state_trichotomy_witness:
  "\<exists>s. run demo_trace demo_system = Returns s
     \<and> ((no_guards 0 s \<and> \<not> shared_only 0 s \<and> \<not> exclusive_only 0 s)
       \<or> (\<not> no_guards 0 s \<and> shared_only 0 s \<and> \<not> exclusive_only 0 s)
       \<or> (\<not> no_guards 0 s \<and> \<not> shared_only 0 s \<and> exclusive_only 0 s))
     \<and> agrees (wrapper_mutex (wrappers s 0))
          (guards_held Shared_lock 0 s) (guards_held Unique_lock 0 s)
     \<and> agrees (wrapper_mutex (wrappers s 1))
          (guards_held Shared_lock 1 s) (guards_held Unique_lock 1 s)"
proof -
  from demo_returns obtain s where s: "run demo_trace demo_system = Returns s" ..
  note t = lock_state_trichotomy [OF s [unfolded demo_system_def]]
  from t [of 0] t [of 1] s show ?thesis by blast
qed

subsection \<open>Mutual exclusion\<close>

lemma guards_held_pos:
  assumes "(t, a) \<in> set (live s)" and "holds_guard k w a"
  shows "1 \<le> guards_held k w s"
proof -
  from assms have "a \<in> set (filter (holds_guard k w) (map snd (live s)))" by force
  then have "0 < length (filter (holds_guard k w) (map snd (live s)))"
    by (rule length_pos_if_in_set)
  then show ?thesis by (simp add: guards_held_def Suc_le_eq)
qed

lemma exclusive_guard_locks:
  assumes inv: "invariant s" and a: "(t, a) \<in> set (live s)" and h: "holds_guard Unique_lock w a"
  shows "wrapper_mutex (wrappers s w) = ExclusiveLocked"
    and "guards_held Unique_lock w s = 1" and "guards_held Shared_lock w s = 0"
proof -
  from inv have c: "consistent w s" by (simp add: invariant_def)
  from guards_held_pos [OF a h] have p: "1 \<le> guards_held Unique_lock w s" .
  from c p show "wrapper_mutex (wrappers s w) = ExclusiveLocked"
    by (cases "wrapper_mutex (wrappers s w)") (auto simp: consistent_def)
  with c show "guards_held Unique_lock w s = 1" and "guards_held Shared_lock w s = 0"
    by (simp_all add: consistent_def)
qed

lemma entries_when_unlocked:
  assumes "wrapper_mutex wr = Unlocked"
  shows "\<exists>a wr'. shared_entry w wr = Returns (a, wr')"
    and "\<exists>a wr'. exclusive_entry w wr = Returns (a, wr')"
  using assms by (cases wr; simp add: entry_defs)+

lemma entries_when_exclusive:
  assumes "wrapper_mutex wr = ExclusiveLocked"
  shows "shared_entry w wr = Blocks" and "exclusive_entry w wr = Blocks"
  using assms by (cases wr; simp add: entry_defs)+

lemma exclusive_holder_excludes:
  assumes inv: "invariant s"
    and i: "i < length (live s)" and a: "live s ! i = (t, a)"
    and h: "holds_guard Unique_lock w a"
  shows "step (t', Ev_read_access w) s = Blocks \<and> step (t', Ev_write_access w) s = Blocks
    \<and> (\<exists>s'. step (t, Ev_destroy i) s = Returns s'
          \<and> (\<exists>s''. step (t', Ev_read_access w) s' = Returns s'')
          \<and> (\<exists>s''. step (t', Ev_write_access w) s' = Returns s''))"
proof -
  from i a have mem: "(t, a) \<in> set (live s)" by (metis nth_mem)
  note ex = exclusive_guard_locks [OF inv mem h]
  have blocked: "step (t', Ev_read_access w) s = Blocks \<and> step (t', Ev_write_access w) s = Blocks"
    using entries_when_exclusive [OF ex(1)] by (simp add: enter_def)
  from destroy_step [OF inv i, of t] obtain s' where
    st: "step (t, Ev_destroy i) s = Returns s'" and inv': "invariant s'"
    and l: "live s' = remove_nth i (live s)"
    by blast
  from guards_held_remove [OF i l, of Unique_lock w] guards_held_remove [OF i l, of Shared_lock w]
    a h ex
  have "guards_held Unique_lock w s' = 0" and "guards_held Shared_lock w s' = 0"
    by (simp_all split: if_splits)
  moreover from inv' have "consistent w s'" by (simp add: invariant_def)
  ultimately have "wrapper_mutex (wrappers s' w) = Unlocked"
    by (cases "wrapper_mutex (wrappers s' w)") (auto simp: consistent_def)
  from entries_when_unlocked [OF this, of w]
  have "(\<exists>s''. step (t', Ev_read_access w) s' = Returns s'')
      \<and> (\<exists>s''. step (t', Ev_write_access w) s' = Returns s'')"
    by (auto simp: enter_Returns)
  with blocked st show ?thesis by blast
qed

lemma write_access_exclusive:
  assumes "write_access w cr = Returns (da, cr')"
  shows "holds_guard Unique_lock w (Detail da) \<and> rwlock cr = Unlocked
    \<and> rwlock cr' = ExclusiveLocked \<and> detail_resource da = Ref Mutable w"
  using assms by (cases "rwlock cr") (auto simp: entry_defs holds_guard_def)

lemma write_access_handle_exclusive:
  assumes "write_access_handle stl_ExclusiveLockType w c = Returns (ha, c')"
  shows "holds_guard Unique_lock w (Handle ha) \<and> lockable_obj c = Unlocked
    \<and> lockable_obj c' = ExclusiveLocked \<and> locked_resource ha = Ref Mutable w"
  using assms by (cases "lockable_obj c") (auto simp: entry_defs holds_guard_def)

text \<open>
  What the exclusive entry point of a wrapper is: \<^verbatim>\<open>write_access\<close> on a
  \<^verbatim>\<open>concurrent_resource\<close>, \<^verbatim>\<open>write_access_handle\<close> on a \<^verbatim>\<open>concurrent\<close>.
\<close>

lemma exclusive_entry_from:
  assumes "exclusive_entry w wr = Returns (a, wr')"
  shows "(\<exists>cr da cr'. wr = Of_concurrent_resource cr \<and> write_access w cr = Returns (da, cr')
            \<and> a = Detail da \<and> wr' = Of_concurrent_resource cr')
       \<or> (\<exists>c ha c'. wr = Of_concurrent c
            \<and> write_access_handle stl_ExclusiveLockType w c = Returns (ha, c')
            \<and> a = Handle ha \<and> wr' = Of_concurrent c')"
proof (cases wr)
  case (Of_concurrent_resource cr)
  with assms show ?thesis by (cases "write_access w cr") auto
next
  case (Of_concurrent c)
  with assms show ?thesis
    by (cases "write_access_handle stl_ExclusiveLockType w c") auto
qed

text \<open>
  C2. In every state that an interleaving of the threads' steps reaches: when a thread's
  call of the exclusive entry point of a wrapper returns (\<^verbatim>\<open>write_access\<close> on a
  \<^verbatim>\<open>concurrent_resource\<close>, \<^verbatim>\<open>write_access_handle\<close> on a \<^verbatim>\<open>concurrent\<close>), the lock
  was free and is now held exclusively, the accessor returned owns the exclusive guard
  of that wrapper, the shared and the exclusive entry point of that wrapper block for
  every thread, and once the accessor is destroyed both return again. The same holds
  for every live accessor that owns the exclusive guard of a wrapper, in every reachable
  state.
\<close>

theorem exclusive_accessor_excludes:
  assumes run: "run evs (fresh_system hs vs) = Returns s"
  shows "(step (t, Ev_write_access w) s = Returns s1 \<longrightarrow>
            wrapper_mutex (wrappers s w) = Unlocked
            \<and> wrapper_mutex (wrappers s1 w) = ExclusiveLocked
            \<and> (\<exists>a. live s1 = live s @ [(t, a)] \<and> holds_guard Unique_lock w a
                 \<and> deref a = Ref Mutable w
                 \<and> ((\<exists>cr da cr'. wrappers s w = Of_concurrent_resource cr
                        \<and> write_access w cr = Returns (da, cr') \<and> a = Detail da)
                    \<or> (\<exists>c ha c'. wrappers s w = Of_concurrent c
                        \<and> write_access_handle stl_ExclusiveLockType w c = Returns (ha, c')
                        \<and> a = Handle ha)))
            \<and> step (t', Ev_read_access w) s1 = Blocks
            \<and> step (t', Ev_write_access w) s1 = Blocks
            \<and> (\<exists>s'. step (t, Ev_destroy (length (live s))) s1 = Returns s'
                  \<and> (\<exists>s''. step (t', Ev_read_access w) s' = Returns s'')
                  \<and> (\<exists>s''. step (t', Ev_write_access w) s' = Returns s'')))
    \<and> (i < length (live s) \<and> live s ! i = (t, b) \<and> holds_guard Unique_lock w b \<longrightarrow>
            step (t', Ev_read_access w) s = Blocks \<and> step (t', Ev_write_access w) s = Blocks
            \<and> (\<exists>s'. step (t, Ev_destroy i) s = Returns s'
                  \<and> (\<exists>s''. step (t', Ev_read_access w) s' = Returns s'')
                  \<and> (\<exists>s''. step (t', Ev_write_access w) s' = Returns s'')))
    \<and> (write_access w cr = Returns (da, cr') \<longrightarrow>
            holds_guard Unique_lock w (Detail da) \<and> rwlock cr = Unlocked
            \<and> rwlock cr' = ExclusiveLocked)
    \<and> (write_access_handle stl_ExclusiveLockType w c = Returns (ha, c') \<longrightarrow>
            holds_guard Unique_lock w (Handle ha) \<and> lockable_obj c = Unlocked
            \<and> lockable_obj c' = ExclusiveLocked)"
proof -
  note inv = reachable_invariant [OF run]
  have first: "wrapper_mutex (wrappers s w) = Unlocked
            \<and> wrapper_mutex (wrappers s1 w) = ExclusiveLocked
            \<and> (\<exists>a. live s1 = live s @ [(t, a)] \<and> holds_guard Unique_lock w a
                 \<and> deref a = Ref Mutable w
                 \<and> ((\<exists>cr da cr'. wrappers s w = Of_concurrent_resource cr
                        \<and> write_access w cr = Returns (da, cr') \<and> a = Detail da)
                    \<or> (\<exists>c ha c'. wrappers s w = Of_concurrent c
                        \<and> write_access_handle stl_ExclusiveLockType w c = Returns (ha, c')
                        \<and> a = Handle ha)))
            \<and> step (t', Ev_read_access w) s1 = Blocks
            \<and> step (t', Ev_write_access w) s1 = Blocks
            \<and> (\<exists>s'. step (t, Ev_destroy (length (live s))) s1 = Returns s'
                  \<and> (\<exists>s''. step (t', Ev_read_access w) s' = Returns s'')
                  \<and> (\<exists>s''. step (t', Ev_write_access w) s' = Returns s''))"
    if st: "step (t, Ev_write_access w) s = Returns s1"
  proof -
    from st obtain a wr' where r: "exclusive_entry w (wrappers s w) = Returns (a, wr')"
      and s1: "s1 = s\<lparr>wrappers := (wrappers s)(w := wr'), live := live s @ [(t, a)]\<rparr>"
      by (auto simp: enter_Returns)
    note e = exclusive_entry_Returns [OF r]
    from e have g: "holds_guard Unique_lock w a" by (simp add: holds_guard_def)
    from e have m: "wrapper_mutex (wrappers s w) = Unlocked \<and> wrapper_mutex wr' = ExclusiveLocked"
      by (cases "wrapper_mutex (wrappers s w)") auto
    have inv1: "invariant s1" using step_preserves [OF inv st] .
    have l: "live s1 = live s @ [(t, a)]" and i1: "length (live s) < length (live s1)"
      and n: "live s1 ! length (live s) = (t, a)"
      by (simp_all add: s1)
    from exclusive_entry_from [OF r]
    have src: "(\<exists>cr da cr'. wrappers s w = Of_concurrent_resource cr
                        \<and> write_access w cr = Returns (da, cr') \<and> a = Detail da)
                    \<or> (\<exists>c ha c'. wrappers s w = Of_concurrent c
                        \<and> write_access_handle stl_ExclusiveLockType w c = Returns (ha, c')
                        \<and> a = Handle ha)"
      by blast
    from m have m1: "wrapper_mutex (wrappers s1 w) = ExclusiveLocked" by (simp add: s1)
    from exclusive_holder_excludes [OF inv1 i1 n g, of t'] m m1 l g e src
    show ?thesis by blast
  qed
  have second: "step (t', Ev_read_access w) s = Blocks \<and> step (t', Ev_write_access w) s = Blocks
            \<and> (\<exists>s'. step (t, Ev_destroy i) s = Returns s'
                  \<and> (\<exists>s''. step (t', Ev_read_access w) s' = Returns s'')
                  \<and> (\<exists>s''. step (t', Ev_write_access w) s' = Returns s''))"
    if "i < length (live s) \<and> live s ! i = (t, b) \<and> holds_guard Unique_lock w b"
    using exclusive_holder_excludes [OF inv, of i t b w t'] that by blast
  have third: "holds_guard Unique_lock w (Detail da) \<and> rwlock cr = Unlocked
            \<and> rwlock cr' = ExclusiveLocked"
    if "write_access w cr = Returns (da, cr')"
    using write_access_exclusive [OF that] by blast
  have fourth: "holds_guard Unique_lock w (Handle ha) \<and> lockable_obj c = Unlocked
            \<and> lockable_obj c' = ExclusiveLocked"
    if "write_access_handle stl_ExclusiveLockType w c = Returns (ha, c')"
    using write_access_handle_exclusive [OF that] by blast
  from first second third fourth show ?thesis by blast
qed


lemma reader_returns:
  "\<exists>s. run [(1, Ev_read_access 0)] demo_system = Returns s \<and> length (live s) = 1
      \<and> wrappers s 1 = Of_concurrent_resource (concurrent_resource_ctor 0)
      \<and> (\<exists>s1. step (1, Ev_write_access 1) s = Returns s1)"
  by (simp add: demo_system_def model_defs)

lemma handle_writer_returns:
  "wrappers demo_system 0 = Of_concurrent (concurrent_ctor 0)
     \<and> (\<exists>s1. step (1, Ev_write_access 0) demo_system = Returns s1)"
  by (simp add: demo_system_def model_defs)

theorem exclusive_accessor_excludes_witness:
  "(\<exists>s s1 da cr'. run [(1, Ev_read_access 0)] demo_system = Returns s
       \<and> step (1, Ev_write_access 1) s = Returns s1
       \<and> write_access 1 (concurrent_resource_ctor (0::nat)) = Returns (da, cr')
       \<and> live s1 = live s @ [(1, Detail da)] \<and> holds_guard Unique_lock 1 (Detail da)
       \<and> rwlock cr' = ExclusiveLocked
       \<and> step (2, Ev_read_access 1) s1 = Blocks \<and> step (2, Ev_write_access 1) s1 = Blocks
       \<and> (\<exists>s'. step (1, Ev_destroy 1) s1 = Returns s'
             \<and> (\<exists>s''. step (2, Ev_read_access 1) s' = Returns s'')
             \<and> (\<exists>s''. step (2, Ev_write_access 1) s' = Returns s'')))
   \<and> (\<exists>s1 ha c'. step (1, Ev_write_access 0) demo_system = Returns s1
       \<and> write_access_handle stl_ExclusiveLockType 0 (concurrent_ctor (0::nat)) = Returns (ha, c')
       \<and> live s1 = [(1, Handle ha)] \<and> holds_guard Unique_lock 0 (Handle ha)
       \<and> lockable_obj c' = ExclusiveLocked
       \<and> step (2, Ev_read_access 0) s1 = Blocks \<and> step (2, Ev_write_access 0) s1 = Blocks
       \<and> (\<exists>s'. step (1, Ev_destroy 0) s1 = Returns s'
             \<and> (\<exists>s''. step (2, Ev_read_access 0) s' = Returns s'')
             \<and> (\<exists>s''. step (2, Ev_write_access 0) s' = Returns s'')))"
proof -
  from reader_returns obtain s s1 where
    s: "run [(1, Ev_read_access 0)] demo_system = Returns s" and len: "length (live s) = 1"
    and w1: "wrappers s 1 = Of_concurrent_resource (concurrent_resource_ctor (0::nat))"
    and st: "step (1, Ev_write_access 1) s = Returns s1"
    by blast
  note t = exclusive_accessor_excludes [OF s [unfolded demo_system_def],
      where t = 1 and w = 1 and ?s1.0 = s1 and t' = 2, THEN conjunct1, rule_format, OF st]
  from t w1 obtain da cr' where
    wa: "write_access 1 (concurrent_resource_ctor (0::nat)) = Returns (da, cr')"
    and l: "live s1 = live s @ [(1, Detail da)]" and h: "holds_guard Unique_lock 1 (Detail da)"
    by auto
  note t3 = exclusive_accessor_excludes [OF s [unfolded demo_system_def],
      where w = 1 and cr = "concurrent_resource_ctor (0::nat)" and da = da and cr' = cr',
      THEN conjunct2, THEN conjunct2, THEN conjunct1, rule_format, OF wa]
  from t have b1: "step (2, Ev_read_access 1) s1 = Blocks"
    and b2: "step (2, Ev_write_access 1) s1 = Blocks"
    and b3: "\<exists>s'. step (1, Ev_destroy (length (live s))) s1 = Returns s'
             \<and> (\<exists>s''. step (2, Ev_read_access 1) s' = Returns s'')
             \<and> (\<exists>s''. step (2, Ev_write_access 1) s' = Returns s'')"
    by blast+
  note b3' = b3 [unfolded len]
  from t3 have e: "rwlock cr' = ExclusiveLocked" by blast
  have part1: "\<exists>s s1 da cr'. run [(1, Ev_read_access 0)] demo_system = Returns s
       \<and> step (1, Ev_write_access 1) s = Returns s1
       \<and> write_access 1 (concurrent_resource_ctor (0::nat)) = Returns (da, cr')
       \<and> live s1 = live s @ [(1, Detail da)] \<and> holds_guard Unique_lock 1 (Detail da)
       \<and> rwlock cr' = ExclusiveLocked
       \<and> step (2, Ev_read_access 1) s1 = Blocks \<and> step (2, Ev_write_access 1) s1 = Blocks
       \<and> (\<exists>s'. step (1, Ev_destroy 1) s1 = Returns s'
             \<and> (\<exists>s''. step (2, Ev_read_access 1) s' = Returns s'')
             \<and> (\<exists>s''. step (2, Ev_write_access 1) s' = Returns s''))"
    by (rule exI [where x = s], rule exI [where x = s1], rule exI [where x = da],
        rule exI [where x = cr'], intro conjI; fact)
  have r0: "run [] demo_system = Returns demo_system" by simp
  from handle_writer_returns obtain u1 where
    w0: "wrappers demo_system 0 = Of_concurrent (concurrent_ctor (0::nat))"
    and su: "step (1, Ev_write_access 0) demo_system = Returns u1"
    by blast
  have live0: "live demo_system = []" by (simp add: demo_system_def fresh_system_def)
  note u = exclusive_accessor_excludes [OF r0 [unfolded demo_system_def],
      where t = 1 and w = 0 and ?s1.0 = u1 and t' = 2, THEN conjunct1, rule_format,
      OF su [unfolded demo_system_def], folded demo_system_def]
  from u w0 obtain ha c' where
    wh: "write_access_handle stl_ExclusiveLockType 0 (concurrent_ctor (0::nat)) = Returns (ha, c')"
    and lu: "live u1 = live demo_system @ [(1, Handle ha)]"
    and hu: "holds_guard Unique_lock 0 (Handle ha)"
    by auto
  note u4 = exclusive_accessor_excludes [OF r0 [unfolded demo_system_def],
      where w = 0 and c = "concurrent_ctor (0::nat)" and ha = ha and c' = c',
      THEN conjunct2, THEN conjunct2, THEN conjunct2, rule_format, OF wh]
  note lu' = lu [unfolded live0 append_Nil]
  from u have c1: "step (2, Ev_read_access 0) u1 = Blocks"
    and c2: "step (2, Ev_write_access 0) u1 = Blocks"
    and c3: "\<exists>s'. step (1, Ev_destroy (length (live demo_system))) u1 = Returns s'
             \<and> (\<exists>s''. step (2, Ev_read_access 0) s' = Returns s'')
             \<and> (\<exists>s''. step (2, Ev_write_access 0) s' = Returns s'')"
    by blast+
  note c3' = c3 [unfolded live0 list.size]
  from u4 have f: "lockable_obj c' = ExclusiveLocked" by blast
  have part2: "\<exists>s1 ha c'. step (1, Ev_write_access 0) demo_system = Returns s1
       \<and> write_access_handle stl_ExclusiveLockType 0 (concurrent_ctor (0::nat)) = Returns (ha, c')
       \<and> live s1 = [(1, Handle ha)] \<and> holds_guard Unique_lock 0 (Handle ha)
       \<and> lockable_obj c' = ExclusiveLocked
       \<and> step (2, Ev_read_access 0) s1 = Blocks \<and> step (2, Ev_write_access 0) s1 = Blocks
       \<and> (\<exists>s'. step (1, Ev_destroy 0) s1 = Returns s'
             \<and> (\<exists>s''. step (2, Ev_read_access 0) s' = Returns s'')
             \<and> (\<exists>s''. step (2, Ev_write_access 0) s' = Returns s''))"
    by (rule exI [where x = u1], rule exI [where x = ha], rule exI [where x = c'],
        intro conjI; fact)
  from part1 part2 show ?thesis by blast
qed

subsection \<open>Single release\<close>








subsection \<open>The unsafe entry points\<close>

lemma unsafe_accessor_calls_nothing:
  "perform_all (unsafe_accessor_ctor_calls @ unsafe_accessor_dtor_calls (unsafe_accessor_ctor r)) m
     = Returns m"
  by (simp add: unsafe_accessor_ctor_calls_def unsafe_accessor_dtor_calls_def)

text \<open>
  C4. As declared, \<^verbatim>\<open>unsafe_read_access\<close> and \<^verbatim>\<open>unsafe_write_access\<close> return the
  locking accessor classes of \<^verbatim>\<open>read_access\<close> and \<^verbatim>\<open>write_access\<close> and initialise
  them from the resource alone. These classes have one constructor, which takes the
  resource and the mutex, so the initialisation matches no constructor, while that of
  \<^verbatim>\<open>read_access\<close> and \<^verbatim>\<open>write_access\<close> does.
\<close>

theorem unsafe_entry_points_match_no_constructor:
  "instantiate_entry Unsafe_read_access = Inl No_matching_constructor
   \<and> instantiate_entry Unsafe_write_access = Inl No_matching_constructor
   \<and> declared_return Unsafe_read_access = declared_return Read_access
   \<and> declared_return Unsafe_write_access = declared_return Write_access
   \<and> instantiate_entry Read_access = Inr [Param_resource, Param_mutex]
   \<and> instantiate_entry Write_access = Inr [Param_resource, Param_mutex]"
  by (simp add: instantiate_entry_def)

subsection \<open>Capability gating\<close>

text \<open>
  C5 as stated fails on \<^verbatim>\<open>lockable\<close>: instantiated with \<^verbatim>\<open>int\<close>, which has none of
  the operations of a read-write lock, it passes the check.
\<close>

theorem capability_gating_counterexample:
  "lacks_operation plain_int (operations_used Component_lockable)
   \<and> check_constraints Component_lockable plain_int = Inr ()"
  by (simp add: lacks_operation_def guard_requires_def read_lock_def write_lock_def
      plain_int_def check_constraints_def)

text \<open>
  C5 (amended). The templates of \<^verbatim>\<open>concurrent.hpp\<close> that constrain their lock type
  by a concept (\<^verbatim>\<open>concurrent\<close>, \<^verbatim>\<open>shared_accessor\<close>, \<^verbatim>\<open>exclusive_accessor\<close>) reject
  every lock type that lacks one of the operations their guards invoke. The holder
  \<^verbatim>\<open>lockable\<close> of \<^verbatim>\<open>concurrent_resource.hpp\<close> and the class template \<^verbatim>\<open>accessor\<close>
  put no constraint on their lock type: the check accepts every type.
\<close>

theorem capability_gating:
  "((c = Component_concurrent \<or> c = Component_shared_accessor \<or> c = Component_exclusive_accessor)
      \<and> lacks_operation T (operations_used c)
      \<longrightarrow> check_constraints c T = Inl Constraints_not_satisfied)
   \<and> check_constraints Component_lockable T = Inr ()
   \<and> check_constraints (Component_accessor LockType) T = Inr ()"
  by (auto simp: lacks_operation_def guard_requires_def stl_SharedLockType_def
      stl_ExclusiveLockType_def check_constraints_def capability_defs)

theorem capability_gating_witness:
  "lacks_operation std_mutex (operations_used Component_concurrent)
   \<and> check_constraints Component_concurrent std_mutex = Inl Constraints_not_satisfied
   \<and> check_constraints Component_lockable std_mutex = Inr ()"
proof -
  have l: "lacks_operation std_mutex (operations_used Component_concurrent)"
    by (simp add: lacks_operation_def guard_requires_def stl_SharedLockType_def
        stl_ExclusiveLockType_def)
  from capability_gating [of Component_concurrent std_mutex] l show ?thesis by simp
qed

subsection \<open>Blocking entry points\<close>

text \<open>
  C7 as stated fails on \<^verbatim>\<open>std::shared_timed_mutex\<close>: it satisfies
  \<^verbatim>\<open>timed_lockable\<close> and \<^verbatim>\<open>shared_timed_lockable\<close>, and \<^verbatim>\<open>concurrent\<close> instantiated
  with it still has no entry point that returns a boolean.
\<close>

theorem bounded_wait_counterexample:
  "basic_shared_lockable std_shared_timed_mutex
   \<and> timed_lockable std_shared_timed_mutex \<and> shared_timed_lockable std_shared_timed_mutex
   \<and> \<not> has_bounded_wait (concurrent_entry_points std_shared_timed_mutex)"
  by (simp add: capability_defs has_bounded_wait_def concurrent_entry_points_def)

lemma guard_ctor_cases:
  "guard_ctor k p m =
     (case perform (acquire_call k) m of
        Returns m' \<Rightarrow> Returns (\<lparr>g_kind = k, pm = Some p, owns = True\<rparr>, m')
      | Blocks \<Rightarrow> Blocks
      | Undefined_behaviour \<Rightarrow> Undefined_behaviour)"
  by (simp add: guard_ctor_def guard_ctor_calls_def split: outcome.splits)

lemma perform_acquire:
  "perform Call_lock_shared m = (if m = ExclusiveLocked then Blocks
     else Returns (case m of SharedLocked n \<Rightarrow> SharedLocked (n + 1) | _ \<Rightarrow> SharedLocked 1))"
  "perform Call_lock m = (if m = Unlocked then Returns ExclusiveLocked else Blocks)"
  by (cases m; simp)+

text \<open>
  C7 (amended). The blocking entry points never report a failure: when the lock is busy
  for the mode asked for, the call does not return; when it returns, the accessor owns
  the lock. Neither wrapper has an entry point that returns a boolean, whatever the lock
  type.
\<close>

theorem blocking_entry_points:
  "(rwlock cr = ExclusiveLocked \<longrightarrow> read_access this cr = Blocks)
   \<and> (rwlock cr \<noteq> ExclusiveLocked \<longrightarrow>
        (\<exists>a cr'. read_access this cr = Returns (a, cr') \<and> owns (detail_lock a)))
   \<and> (rwlock cr \<noteq> Unlocked \<longrightarrow> write_access this cr = Blocks)
   \<and> (rwlock cr = Unlocked \<longrightarrow>
        (\<exists>a cr'. write_access this cr = Returns (a, cr') \<and> owns (detail_lock a)))
   \<and> (lockable_obj c = ExclusiveLocked \<longrightarrow>
        read_access_handle stl_SharedLockType this c = Blocks)
   \<and> (lockable_obj c \<noteq> ExclusiveLocked \<longrightarrow>
        (\<exists>a c'. read_access_handle stl_SharedLockType this c = Returns (a, c') \<and> owns (lock a)))
   \<and> (lockable_obj c \<noteq> Unlocked \<longrightarrow>
        write_access_handle stl_ExclusiveLockType this c = Blocks)
   \<and> (lockable_obj c = Unlocked \<longrightarrow>
        (\<exists>a c'. write_access_handle stl_ExclusiveLockType this c = Returns (a, c')
           \<and> owns (lock a)))
   \<and> \<not> has_bounded_wait concurrent_resource_entry_points
   \<and> \<not> has_bounded_wait (concurrent_entry_points T)"
proof -
  have r: "(rwlock cr = ExclusiveLocked \<longrightarrow> read_access this cr = Blocks)
      \<and> (rwlock cr \<noteq> ExclusiveLocked \<longrightarrow>
        (\<exists>a cr'. read_access this cr = Returns (a, cr') \<and> owns (detail_lock a)))"
    by (simp add: read_access_def detail_accessor_ctor_def guard_ctor_cases read_lock_def
        perform_acquire)
  have w: "(rwlock cr \<noteq> Unlocked \<longrightarrow> write_access this cr = Blocks)
      \<and> (rwlock cr = Unlocked \<longrightarrow>
        (\<exists>a cr'. write_access this cr = Returns (a, cr') \<and> owns (detail_lock a)))"
    by (simp add: write_access_def detail_accessor_ctor_def guard_ctor_cases write_lock_def
        perform_acquire)
  have rh: "(lockable_obj c = ExclusiveLocked \<longrightarrow>
        read_access_handle stl_SharedLockType this c = Blocks)
      \<and> (lockable_obj c \<noteq> ExclusiveLocked \<longrightarrow>
        (\<exists>a c'. read_access_handle stl_SharedLockType this c = Returns (a, c') \<and> owns (lock a)))"
    by (simp add: read_access_handle_def shared_accessor_def accessor_ctor_def guard_ctor_cases
        stl_SharedLockType_def perform_acquire)
  have wh: "(lockable_obj c \<noteq> Unlocked \<longrightarrow>
        write_access_handle stl_ExclusiveLockType this c = Blocks)
      \<and> (lockable_obj c = Unlocked \<longrightarrow>
        (\<exists>a c'. write_access_handle stl_ExclusiveLockType this c = Returns (a, c')
           \<and> owns (lock a)))"
    by (simp add: write_access_handle_def exclusive_accessor_def accessor_ctor_def
        guard_ctor_cases stl_ExclusiveLockType_def perform_acquire)
  have nb: "\<not> has_bounded_wait concurrent_resource_entry_points
      \<and> \<not> has_bounded_wait (concurrent_entry_points T)"
    by (simp add: has_bounded_wait_def concurrent_resource_entry_points_def
        concurrent_entry_points_def)
  from r w rh wh nb show ?thesis by blast
qed

theorem blocking_entry_points_witness:
  "read_access 0 \<lparr>rwlock = ExclusiveLocked, cr_resource = (5::nat)\<rparr> = Blocks
   \<and> write_access 0 \<lparr>rwlock = SharedLocked 2, cr_resource = (5::nat)\<rparr> = Blocks
   \<and> (\<exists>a cr'. read_access 0 \<lparr>rwlock = SharedLocked 2, cr_resource = (5::nat)\<rparr> = Returns (a, cr')
         \<and> owns (detail_lock a))
   \<and> (\<exists>a c'. write_access_handle stl_ExclusiveLockType 0 (concurrent_ctor (5::nat))
           = Returns (a, c') \<and> owns (lock a))
   \<and> \<not> has_bounded_wait (concurrent_entry_points std_shared_timed_mutex)"
  using blocking_entry_points [of "\<lparr>rwlock = ExclusiveLocked, cr_resource = (5::nat)\<rparr>" 0
      "concurrent_ctor (5::nat)" std_shared_timed_mutex]
    blocking_entry_points [of "\<lparr>rwlock = SharedLocked 2, cr_resource = (5::nat)\<rparr>" 0
      "concurrent_ctor (5::nat)" std_shared_timed_mutex]
  by (simp add: concurrent_ctor_def)

subsection \<open>Dereference and member access\<close>

lemma read_access_Returns:
  "read_access this cr = Returns (a, cr') \<Longrightarrow>
     detail_lock a = \<lparr>g_kind = Shared_lock, pm = Some this, owns = True\<rparr>
     \<and> detail_resource a = Ref Const this
     \<and> perform Call_lock_shared (rwlock cr) = Returns (rwlock cr')
     \<and> cr_resource cr' = cr_resource cr"
  by (cases "perform Call_lock_shared (rwlock cr)") (auto simp: entry_defs)

lemma write_access_Returns:
  "write_access this cr = Returns (a, cr') \<Longrightarrow>
     detail_lock a = \<lparr>g_kind = Unique_lock, pm = Some this, owns = True\<rparr>
     \<and> detail_resource a = Ref Mutable this
     \<and> perform Call_lock (rwlock cr) = Returns (rwlock cr')
     \<and> cr_resource cr' = cr_resource cr"
  by (cases "perform Call_lock (rwlock cr)") (auto simp: entry_defs)

lemma read_access_handle_Returns:
  "read_access_handle SharedLockType this c = Returns (a, c') \<Longrightarrow>
     lock a = \<lparr>g_kind = SharedLockType, pm = Some this, owns = True\<rparr>
     \<and> locked_resource a = Ref Const this
     \<and> perform (acquire_call SharedLockType) (lockable_obj c) = Returns (lockable_obj c')
     \<and> resource c' = resource c"
  by (cases "perform (acquire_call SharedLockType) (lockable_obj c)") (auto simp: entry_defs)

lemma write_access_handle_Returns:
  "write_access_handle ExclusiveLockType this c = Returns (a, c') \<Longrightarrow>
     lock a = \<lparr>g_kind = ExclusiveLockType, pm = Some this, owns = True\<rparr>
     \<and> locked_resource a = Ref Mutable this
     \<and> perform (acquire_call ExclusiveLockType) (lockable_obj c) = Returns (lockable_obj c')
     \<and> resource c' = resource c"
  by (cases "perform (acquire_call ExclusiveLockType) (lockable_obj c)") (auto simp: entry_defs)

lemma wrapper_resource_with_resource [simp]:
  "wrapper_resource (with_resource v wr) = v"
  by (cases wr) simp_all

text \<open>
  C8. Dereferencing an accessor returns the reference it was constructed with: a
  \<^verbatim>\<open>const\<close> reference to the resource of the wrapper for an accessor from the shared
  entry points, a mutable one for an accessor from the exclusive entry points. Reading
  through either yields the wrapper's resource; assigning through the mutable one
  replaces it, assigning through the \<^verbatim>\<open>const\<close> one is refused. Dereference takes no
  lock state and returns none, and gives the same result on a moved-from accessor.
\<close>

theorem dereference_view:
  "(read_access this cr = Returns (da, cr') \<longrightarrow> detail_accessor_deref da = Ref Const this)
   \<and> (write_access this cr = Returns (da, cr') \<longrightarrow> detail_accessor_deref da = Ref Mutable this)
   \<and> (read_access_handle SharedLockType this c = Returns (a, c')
        \<longrightarrow> accessor_deref a = Ref Const this)
   \<and> (write_access_handle ExclusiveLockType this c = Returns (a, c')
        \<longrightarrow> accessor_deref a = Ref Mutable this)
   \<and> ref_read (Ref q this) ws = wrapper_resource (ws this)
   \<and> ref_assign (Ref Const this) v ws = Inl Assignment_of_read_only_location
   \<and> (\<exists>ws'. ref_assign (Ref Mutable this) v ws = Inr ws'
         \<and> ref_read (Ref q this) ws' = v \<and> (\<forall>w. w \<noteq> this \<longrightarrow> ws' w = ws w))
   \<and> accessor_deref (snd (accessor_move b)) = accessor_deref b
   \<and> detail_accessor_deref (snd (detail_accessor_move db)) = detail_accessor_deref db"
proof -
  have e: "(read_access this cr = Returns (da, cr') \<longrightarrow> detail_accessor_deref da = Ref Const this)
      \<and> (write_access this cr = Returns (da, cr') \<longrightarrow> detail_accessor_deref da = Ref Mutable this)
      \<and> (read_access_handle SharedLockType this c = Returns (a, c')
        \<longrightarrow> accessor_deref a = Ref Const this)
      \<and> (write_access_handle ExclusiveLockType this c = Returns (a, c')
        \<longrightarrow> accessor_deref a = Ref Mutable this)"
    by (auto simp: accessor_deref_def detail_accessor_deref_def
        dest: read_access_Returns write_access_Returns read_access_handle_Returns
          write_access_handle_Returns)
  have r: "ref_read (Ref q this) ws = wrapper_resource (ws this)
      \<and> ref_assign (Ref Const this) v ws = Inl Assignment_of_read_only_location
      \<and> (\<exists>ws'. ref_assign (Ref Mutable this) v ws = Inr ws'
         \<and> ref_read (Ref q this) ws' = v \<and> (\<forall>w. w \<noteq> this \<longrightarrow> ws' w = ws w))"
    by (simp add: ref_read_def)
  have m: "accessor_deref (snd (accessor_move b)) = accessor_deref b
      \<and> detail_accessor_deref (snd (detail_accessor_move db)) = detail_accessor_deref db"
    by (simp add: accessor_deref_def detail_accessor_deref_def accessor_move_def
        detail_accessor_move_def)
  from e r m show ?thesis by blast
qed

theorem dereference_view_witness:
  "(\<exists>da cr'. read_access 3 (concurrent_resource_ctor (7::nat)) = Returns (da, cr')
       \<and> detail_accessor_deref da = Ref Const 3)
   \<and> (\<exists>da cr'. write_access 3 (concurrent_resource_ctor (7::nat)) = Returns (da, cr')
       \<and> detail_accessor_deref da = Ref Mutable 3)
   \<and> (\<exists>a c'. read_access_handle stl_SharedLockType 3 (concurrent_ctor (7::nat)) = Returns (a, c')
       \<and> accessor_deref a = Ref Const 3)
   \<and> (\<exists>a c'. write_access_handle stl_ExclusiveLockType 3 (concurrent_ctor (7::nat)) = Returns (a, c')
       \<and> accessor_deref a = Ref Mutable 3)"
proof -
  obtain da cr' where r: "read_access 3 (concurrent_resource_ctor (7::nat)) = Returns (da, cr')"
    by (simp add: entry_defs concurrent_resource_ctor_def)
  obtain db cr'' where w: "write_access 3 (concurrent_resource_ctor (7::nat)) = Returns (db, cr'')"
    by (simp add: entry_defs concurrent_resource_ctor_def)
  obtain a c' where rh:
    "read_access_handle stl_SharedLockType 3 (concurrent_ctor (7::nat)) = Returns (a, c')"
    by (simp add: entry_defs concurrent_ctor_def)
  obtain b c'' where wh:
    "write_access_handle stl_ExclusiveLockType 3 (concurrent_ctor (7::nat)) = Returns (b, c'')"
    by (simp add: entry_defs concurrent_ctor_def)
  note d1 = dereference_view [where this = 3 and cr = "concurrent_resource_ctor 7"
      and da = da and cr' = cr', THEN conjunct1]
  note d2 = dereference_view [where this = 3 and cr = "concurrent_resource_ctor 7"
      and da = db and cr' = cr'', THEN conjunct2, THEN conjunct1]
  note d3 = dereference_view [where this = 3 and c = "concurrent_ctor 7" and a = a and c' = c'
      and SharedLockType = stl_SharedLockType, THEN conjunct2, THEN conjunct2, THEN conjunct1]
  note d4 = dereference_view [where this = 3 and c = "concurrent_ctor 7" and a = b and c' = c''
      and ExclusiveLockType = stl_ExclusiveLockType,
      THEN conjunct2, THEN conjunct2, THEN conjunct2, THEN conjunct1]
  from d1 r have 1: "detail_accessor_deref da = Ref Const 3" by simp
  from d2 w have 2: "detail_accessor_deref db = Ref Mutable 3" by simp
  from d3 rh have 3: "accessor_deref a = Ref Const 3" by simp
  from d4 wh have 4: "accessor_deref b = Ref Mutable 3" by simp
  from r w rh wh 1 2 3 4 show ?thesis by blast
qed

text \<open>
  C9. Member access through an accessor of \<^verbatim>\<open>concurrent.hpp\<close> reaches the resource's
  own members: \<^verbatim>\<open>operator->\<close> returns a decorator that holds the accessor's resource
  reference, \<^verbatim>\<open>operator->\<close> of the decorator returns the address of that reference,
  and selecting a member through it yields that member of the wrapper's resource,
  whatever the resource type is, an indirection included. In
  \<^verbatim>\<open>concurrent_resource.hpp\<close> the decorator holds the reference too, but its
  \<^verbatim>\<open>operator->\<close> is declared \<^verbatim>\<open>const decltype(auto)\<close>: the declaration is
  ill-formed, and member access through \<^verbatim>\<open>detail::accessor\<close> and
  \<^verbatim>\<open>detail::unsafe_accessor\<close> yields no member.
\<close>

theorem member_access_through_decorators:
  "value_ref (accessor_arrow a) = locked_resource a
   \<and> decorator_arrow (accessor_arrow a) = Inr (address_of (locked_resource a))
   \<and> accessor_member_access a m ws = Inr (m (ref_read (accessor_deref a) ws))
   \<and> (read_access_handle SharedLockType this c = Returns (a, c')
        \<longrightarrow> decorator_arrow (accessor_arrow a) = Inr (Ptr Const this)
          \<and> accessor_member_access a m ws = Inr (m (wrapper_resource (ws this))))
   \<and> (write_access_handle ExclusiveLockType this c = Returns (a, c')
        \<longrightarrow> decorator_arrow (accessor_arrow a) = Inr (Ptr Mutable this)
          \<and> accessor_member_access a m ws = Inr (m (wrapper_resource (ws this))))
   \<and> detail_value (detail_accessor_arrow da) = detail_resource da
   \<and> detail_value (unsafe_accessor_arrow ua) = unsafe_resource ua
   \<and> detail_decorator_arrow (detail_accessor_arrow da) = Inl Decltype_auto_not_alone
   \<and> detail_decorator_arrow (unsafe_accessor_arrow ua) = Inl Decltype_auto_not_alone
   \<and> detail_accessor_member_access da m ws = Inl Decltype_auto_not_alone"
proof -
  have sel: "select_member (address_of r) m ws = m (ref_read r ws)" for r
    by (cases r) (simp add: select_member_def ref_read_def)
  have g: "value_ref (accessor_arrow a) = locked_resource a
      \<and> decorator_arrow (accessor_arrow a) = Inr (address_of (locked_resource a))
      \<and> accessor_member_access a m ws = Inr (m (ref_read (accessor_deref a) ws))"
    by (simp add: view_defs accessor_member_access_def sel)
  have e: "(read_access_handle SharedLockType this c = Returns (a, c')
        \<longrightarrow> decorator_arrow (accessor_arrow a) = Inr (Ptr Const this)
          \<and> accessor_member_access a m ws = Inr (m (wrapper_resource (ws this))))
      \<and> (write_access_handle ExclusiveLockType this c = Returns (a, c')
        \<longrightarrow> decorator_arrow (accessor_arrow a) = Inr (Ptr Mutable this)
          \<and> accessor_member_access a m ws = Inr (m (wrapper_resource (ws this))))"
    by (auto simp: view_defs accessor_member_access_def select_member_def
        dest: read_access_handle_Returns write_access_handle_Returns)
  have d: "detail_value (detail_accessor_arrow da) = detail_resource da
      \<and> detail_value (unsafe_accessor_arrow ua) = unsafe_resource ua
      \<and> detail_decorator_arrow (detail_accessor_arrow da) = Inl Decltype_auto_not_alone
      \<and> detail_decorator_arrow (unsafe_accessor_arrow ua) = Inl Decltype_auto_not_alone
      \<and> detail_accessor_member_access da m ws = Inl Decltype_auto_not_alone"
    by (simp add: view_defs detail_accessor_member_access_def unsafe_accessor_arrow_def)
  from g e d show ?thesis by simp
qed

theorem member_access_through_decorators_witness:
  "\<exists>a c'. write_access_handle stl_ExclusiveLockType 2 (concurrent_ctor (Ptr Mutable 12))
        = Returns (a, c')
     \<and> decorator_arrow (accessor_arrow a) = Inr (Ptr Mutable 2)
     \<and> accessor_member_access a ptr_target pointer_wrappers = Inr 12"
proof -
  obtain a c' where wh:
    "write_access_handle stl_ExclusiveLockType 2 (concurrent_ctor (Ptr Mutable 12)) = Returns (a, c')"
    by (simp add: entry_defs concurrent_ctor_def)
  note t = member_access_through_decorators [where this = 2 and a = a and c' = c'
      and c = "concurrent_ctor (Ptr Mutable 12)" and ExclusiveLockType = stl_ExclusiveLockType
      and m = ptr_target and ws = pointer_wrappers,
      THEN conjunct2, THEN conjunct2, THEN conjunct2, THEN conjunct2, THEN conjunct1,
      rule_format, OF wh]
  from t have p: "decorator_arrow (accessor_arrow a) = Inr (Ptr Mutable 2)"
    by (rule conjunct1)
  from t have "accessor_member_access a ptr_target pointer_wrappers
      = Inr (ptr_target (wrapper_resource (pointer_wrappers 2)))"
    by (rule conjunct2)
  then have "accessor_member_access a ptr_target pointer_wrappers = Inr 12"
    by (simp add: pointer_wrappers_def concurrent_ctor_def)
  with wh p show ?thesis by blast
qed


subsection \<open>The two wrappers\<close>






end
